theory Spec2Isabelle
  imports Main
begin

section \<open>Python values\<close>

text \<open>
  A \<^verbatim>\<open>datetime.datetime\<close>, or a \<^verbatim>\<open>pandas.Timestamp\<close> (a subclass of it), without
  time zone.
\<close>

record datetime =
  year :: nat
  month :: nat
  day :: nat
  hour :: nat
  minute :: nat
  second :: nat
  microsecond :: nat

text \<open>
  The scalar objects a row of a frame yields, by runtime class, since the conversion
  branches on \<^verbatim>\<open>isinstance\<close>:
  \<^item> \<open>PyNone\<close>, \<open>PyNaN\<close> (a float NaN), \<open>PyNaT\<close>, \<open>PyNA\<close>: the missing values of pandas;
  \<^item> \<open>PyBool\<close>, \<open>PyInt\<close>, \<open>PyFloat\<close>: the built-in classes (\<^verbatim>\<open>bool\<close> is a subclass of
    \<^verbatim>\<open>int\<close>); a float other than NaN is carried by its \<^verbatim>\<open>repr\<close>, the text that reads
    back as the same float;
  \<^item> \<open>NpInt\<close>, \<open>NpFloat\<close>, \<open>NpBool\<close>: the numpy scalars \<^verbatim>\<open>numpy.int64\<close> (and the other
    numpy integers), \<^verbatim>\<open>numpy.float64\<close>, \<^verbatim>\<open>numpy.bool_\<close>. \<^verbatim>\<open>numpy.float64\<close> is a
    subclass of \<^verbatim>\<open>float\<close>; the numpy integers and \<^verbatim>\<open>numpy.bool_\<close> are subclasses of
    neither \<^verbatim>\<open>int\<close> nor \<^verbatim>\<open>float\<close>. A row that \<^verbatim>\<open>iterrows\<close> yields has one dtype,
    the common dtype of the columns: where it is a numpy numeric dtype the items are
    these scalars, and where it is \<^verbatim>\<open>object\<close> (as soon as one column holds strings or
    timestamps) the items are the built-in objects;
  \<^item> \<open>PyStr\<close>; \<open>PyDatetime\<close>; \<open>PyObject\<close>, any other scalar object, carried by the
    text \<^verbatim>\<open>str\<close> gives for it.
\<close>

datatype pyval =
    PyNone
  | PyNaN
  | PyNaT
  | PyNA
  | PyBool bool
  | PyInt int
  | PyFloat string
  | NpInt int
  | NpFloat string
  | NpBool bool
  | PyStr string
  | PyDatetime (the_datetime: datetime)
  | PyObject string

text \<open>\<^verbatim>\<open>pd.isna(value)\<close> on a scalar.\<close>

fun isna :: "pyval \<Rightarrow> bool" where
  "isna PyNone = True"
| "isna PyNaN = True"
| "isna PyNaT = True"
| "isna PyNA = True"
| "isna v = False"

text \<open>\<^verbatim>\<open>isinstance(value, (int, float))\<close>.\<close>

fun isinstance_int_float :: "pyval \<Rightarrow> bool" where
  "isinstance_int_float (PyBool b) = True"
| "isinstance_int_float (PyInt i) = True"
| "isinstance_int_float (PyFloat f) = True"
| "isinstance_int_float PyNaN = True"
| "isinstance_int_float (NpFloat f) = True"
| "isinstance_int_float v = False"

text \<open>\<^verbatim>\<open>isinstance(value, (datetime, pd.Timestamp))\<close>; \<^verbatim>\<open>pandas.NaT\<close> is neither.\<close>

fun isinstance_datetime :: "pyval \<Rightarrow> bool" where
  "isinstance_datetime (PyDatetime d) = True"
| "isinstance_datetime v = False"

subsection \<open>Text of numbers and of timestamps\<close>

definition digit_char :: "nat \<Rightarrow> char" where
  "digit_char n = ''0123456789'' ! (n mod 10)"

fun str_nat :: "nat \<Rightarrow> string" where
  "str_nat n = (if n < 10 then [digit_char n] else str_nat (n div 10) @ [digit_char (n mod 10)])"

declare str_nat.simps [simp del]

definition str_int :: "int \<Rightarrow> string" where
  "str_int i = (if i < 0 then ''-'' @ str_nat (nat (- i)) else str_nat (nat i))"

definition str_bool :: "bool \<Rightarrow> string" where
  "str_bool b = (if b then ''True'' else ''False'')"

text \<open>\<^verbatim>\<open>s.zfill(w)\<close> on a string of digits: zeros on the left up to width \<open>w\<close>.\<close>

definition zfill :: "nat \<Rightarrow> string \<Rightarrow> string" where
  "zfill w s = replicate (w - length s) (CHR ''0'') @ s"

text \<open>
  \<^verbatim>\<open>value.strftime("%Y-%m-%d %H:%M:%S")\<close>. CPython hands the format to the C library,
  and glibc writes \<^verbatim>\<open>%Y\<close> as the year without leading zeros: \<^verbatim>\<open>999\<close> for the year
  999, four digits only from the year 1000 on. The other five fields are zero-padded to
  two digits.
\<close>

definition strftime :: "datetime \<Rightarrow> string" where
  "strftime d =
     str_nat (year d) @ ''-'' @ zfill 2 (str_nat (month d)) @ ''-'' @
     zfill 2 (str_nat (day d)) @ '' '' @ zfill 2 (str_nat (hour d)) @ '':'' @
     zfill 2 (str_nat (minute d)) @ '':'' @ zfill 2 (str_nat (second d))"

text \<open>
  \<^verbatim>\<open>value.isoformat(sep=" ")\<close> without the microseconds; here the year is zero-padded
  to four digits.
\<close>

definition isoformat :: "datetime \<Rightarrow> string" where
  "isoformat d =
     zfill 4 (str_nat (year d)) @ ''-'' @ zfill 2 (str_nat (month d)) @ ''-'' @
     zfill 2 (str_nat (day d)) @ '' '' @ zfill 2 (str_nat (hour d)) @ '':'' @
     zfill 2 (str_nat (minute d)) @ '':'' @ zfill 2 (str_nat (second d))"

text \<open>
  \<^verbatim>\<open>str(value)\<close>. For a timestamp it is the ISO form with a space, with the microseconds
  when they are not zero.
\<close>

fun py_str :: "pyval \<Rightarrow> string" where
  "py_str PyNone = ''None''"
| "py_str PyNaN = ''nan''"
| "py_str PyNaT = ''NaT''"
| "py_str PyNA = ''<NA>''"
| "py_str (PyBool b) = str_bool b"
| "py_str (PyInt i) = str_int i"
| "py_str (PyFloat f) = f"
| "py_str (NpInt i) = str_int i"
| "py_str (NpFloat f) = f"
| "py_str (NpBool b) = str_bool b"
| "py_str (PyStr s) = s"
| "py_str (PyDatetime d) =
     isoformat d @ (if microsecond d = 0 then '''' else ''.'' @ zfill 6 (str_nat (microsecond d)))"
| "py_str (PyObject s) = s"

subsection \<open>Exceptions\<close>

text \<open>
  Exceptions carry the text that \<^verbatim>\<open>str(e)\<close> gives. \<open>SystemExit\<close> and
  \<open>KeyboardInterrupt\<close> derive from \<^verbatim>\<open>BaseException\<close> only, so a clause
  \<^verbatim>\<open>except Exception\<close> does not catch them.
\<close>

datatype exn =
    ValueError string
  | TypeError string
  | AttributeError string
  | KeyError string
  | ImportError string
  | Exception string
  | OtherError string string
  | SystemExit int
  | KeyboardInterrupt

fun is_Exception :: "exn \<Rightarrow> bool" where
  "is_Exception (SystemExit c) = False"
| "is_Exception KeyboardInterrupt = False"
| "is_Exception e = True"

fun exn_str :: "exn \<Rightarrow> string" where
  "exn_str (ValueError m) = m"
| "exn_str (TypeError m) = m"
| "exn_str (AttributeError m) = m"
| "exn_str (KeyError m) = m"
| "exn_str (ImportError m) = m"
| "exn_str (Exception m) = m"
| "exn_str (OtherError c m) = m"
| "exn_str (SystemExit c) = str_int c"
| "exn_str KeyboardInterrupt = ''''"

section \<open>Frames\<close>

text \<open>
  A row or column label: a string or an integer (the labels pandas gives by default).
  \<open>label_str\<close> is \<^verbatim>\<open>str(label)\<close>, \<open>label_repr\<close> is \<^verbatim>\<open>repr(label)\<close>.
\<close>

datatype label = LInt int | LStr string

fun label_str :: "label \<Rightarrow> string" where
  "label_str (LInt i) = str_int i"
| "label_str (LStr s) = s"

fun label_repr :: "label \<Rightarrow> string" where
  "label_repr (LInt i) = str_int i"
| "label_repr (LStr s) = [CHR 0x27] @ s @ [CHR 0x27]"

text \<open>
  The dtype of a column: a numpy dtype or \<^verbatim>\<open>object\<close>, by its name, or the categorical
  dtype with its categories. \<open>dtype_str\<close> is \<^verbatim>\<open>str(dtype)\<close>. A column of a numpy dtype
  or of dtype \<^verbatim>\<open>object\<close> can be filled with any value (it becomes \<^verbatim>\<open>object\<close> where
  needed); a categorical column only with one of its categories. The nullable extension
  dtypes (\<^verbatim>\<open>Int64\<close>, \<^verbatim>\<open>boolean\<close>) are not modelled.
\<close>

datatype dtype = Dtype string | CategoricalDtype "pyval list"

fun dtype_str :: "dtype \<Rightarrow> string" where
  "dtype_str (Dtype n) = n"
| "dtype_str (CategoricalDtype cats) = ''category''"

fun accepts :: "dtype \<Rightarrow> pyval \<Rightarrow> bool" where
  "accepts (Dtype n) v = True"
| "accepts (CategoricalDtype cats) v = (v \<in> set cats)"

text \<open>
  A \<^verbatim>\<open>pandas.DataFrame\<close>: the column labels in order, the row labels in order, the dtype
  of each column, and the cells row by row. A cell is the scalar object that row access
  yields for it. \<open>wf_frame\<close>: the frame is rectangular, with one row of cells per row
  label, and one cell and one dtype per column label.
\<close>

record dataframe =
  df_columns :: "label list"
  df_index :: "label list"
  df_dtypes :: "dtype list"
  df_cells :: "pyval list list"

definition wf_frame :: "dataframe \<Rightarrow> bool" where
  "wf_frame df \<longleftrightarrow>
     length (df_cells df) = length (df_index df) \<and>
     length (df_dtypes df) = length (df_columns df) \<and>
     list_all (\<lambda>row. length row = length (df_columns df)) (df_cells df)"

text \<open>
  \<^verbatim>\<open>df.fillna(v)\<close> as a function on the frame's contents. pandas checks \<open>v\<close> against
  the categories of every categorical column, whether or not the column has a missing cell
  (under copy-on-write, only when it has one), and raises \<^verbatim>\<open>TypeError\<close> when \<open>v\<close> is not
  among them. Otherwise every missing cell becomes \<open>v\<close>, and a column of a numpy dtype in
  which a cell was filled takes the dtype \<^verbatim>\<open>object\<close>.
\<close>

definition fill_cell :: "pyval \<Rightarrow> pyval \<Rightarrow> pyval" where
  "fill_cell v x = (if isna x then v else x)"

definition column_has_na :: "pyval list list \<Rightarrow> nat \<Rightarrow> bool" where
  "column_has_na rows j = list_ex (\<lambda>row. j < length row \<and> isna (row ! j)) rows"

definition fill_dtype :: "pyval list list \<Rightarrow> nat \<times> dtype \<Rightarrow> dtype" where
  "fill_dtype rows jd =
     (case jd of
        (j, Dtype n) \<Rightarrow> if column_has_na rows j then Dtype ''object'' else Dtype n
      | (j, CategoricalDtype cats) \<Rightarrow> CategoricalDtype cats)"

definition fill_frame :: "dataframe \<Rightarrow> pyval \<Rightarrow> dataframe" where
  "fill_frame df v =
     df\<lparr>df_cells := map (map (fill_cell v)) (df_cells df),
        df_dtypes := map (fill_dtype (df_cells df)) (enumerate 0 (df_dtypes df))\<rparr>"

definition fill_accepted :: "dataframe \<Rightarrow> pyval \<Rightarrow> bool" where
  "fill_accepted df v = list_all (\<lambda>dt. accepts dt v) (df_dtypes df)"

definition fillna :: "dataframe \<Rightarrow> pyval \<Rightarrow> exn + dataframe" where
  "fillna df v =
     (if fill_accepted df v then Inr (fill_frame df v)
      else Inl (TypeError (''Cannot setitem on a Categorical with a new category ('' @ py_str v @
                           ''), set the categories first'')))"

text \<open>
  Frames are objects: the store is the list of the frames allocated so far, and a
  reference is a position in it. \<^verbatim>\<open>df.copy()\<close> and \<^verbatim>\<open>df.fillna(v)\<close> (not in place)
  each allocate a new frame and return its reference. A reference that an object holds is
  to an allocated frame; the theorems have this as the hypothesis that it is less than the
  length of the store.
\<close>

type_synonym heap = "dataframe list"

definition df_copy :: "nat \<Rightarrow> heap \<Rightarrow> nat \<times> heap" where
  "df_copy r h = (length h, h @ [h ! r])"

definition df_fillna :: "nat \<Rightarrow> pyval \<Rightarrow> heap \<Rightarrow> (exn + nat) \<times> heap" where
  "df_fillna r v h =
     (case fillna (h ! r) v of
        Inl e \<Rightarrow> (Inl e, h)
      | Inr filled \<Rightarrow> (Inr (length h), h @ [filled]))"

text \<open>
  \<^verbatim>\<open>df.iterrows()\<close>: the pairs of a row label and the row as a Series indexed by the
  column labels. \<^verbatim>\<open>row[col]\<close> is label-based: one match is the scalar, several matches
  (a repeated column label) are a Series, none is a \<^verbatim>\<open>KeyError\<close>.
\<close>

type_synonym series = "(label \<times> pyval) list"

definition iterrows :: "dataframe \<Rightarrow> (label \<times> series) list" where
  "iterrows df = zip (df_index df) (map (zip (df_columns df)) (df_cells df))"

datatype item = Scalar pyval | SubSeries "pyval list"

definition series_getitem :: "series \<Rightarrow> label \<Rightarrow> exn + item" where
  "series_getitem row col =
     (case filter (\<lambda>(k, v). k = col) row of
        [] \<Rightarrow> Inl (KeyError (label_repr col))
      | [(k, v)] \<Rightarrow> Inr (Scalar v)
      | kvs \<Rightarrow> Inr (SubSeries (map snd kvs)))"

text \<open>
  \<^verbatim>\<open>df[col].dtype\<close>: with a repeated label \<^verbatim>\<open>df[col]\<close> is a frame, which has no
  attribute \<^verbatim>\<open>dtype\<close> (a repeated label spelled \<^verbatim>\<open>dtype\<close>, which attribute access
  would resolve as a column, is left out).
\<close>

definition column_dtype :: "dataframe \<Rightarrow> label \<Rightarrow> exn + dtype" where
  "column_dtype df col =
     (case filter (\<lambda>(k, dt). k = col) (zip (df_columns df) (df_dtypes df)) of
        [] \<Rightarrow> Inl (KeyError (label_repr col))
      | [(k, dt)] \<Rightarrow> Inr dt
      | kds \<Rightarrow> Inl (AttributeError
          ([CHR 0x27] @ ''DataFrame'' @ [CHR 0x27] @ '' object has no attribute '' @
           [CHR 0x27] @ ''dtype'' @ [CHR 0x27])))"

text \<open>
  A Python \<^verbatim>\<open>dict\<close> keeps its keys in insertion order; storing under a key it already
  has replaces the value where the key stands.
\<close>

fun dict_set :: "('k \<times> 'v) list \<Rightarrow> 'k \<Rightarrow> 'v \<Rightarrow> ('k \<times> 'v) list" where
  "dict_set [] k v = [(k, v)]"
| "dict_set ((k', v') # d) k v = (if k' = k then (k', v) # d else (k', v') # dict_set d k v)"

section \<open>viewer.py: PandasTablePage\<close>

text \<open>
  The page object with its four attributes (\<open>plugin\<close> is set only where the cacao
  components were imported); the framework's plugin object, known by the arguments it was
  constructed with; a column descriptor, the dict with the keys \<^verbatim>\<open>key\<close>, \<^verbatim>\<open>title\<close>
  (here \<open>title_of\<close>) and \<^verbatim>\<open>dataType\<close>; a display record, the dict of one row; and the
  dict that \<^verbatim>\<open>_prepare_table_data\<close> returns.
\<close>

record plugin =
  enhanced_mode :: bool
  row_threshold :: nat
  memory_threshold_mb :: nat

record PandasTablePage =
  dataframe :: nat
  title :: "string option"
  mode :: string
  plugin :: "plugin option"

record column_desc =
  key :: label
  title_of :: label
  dataType :: string

type_synonym row_data = "(label \<times> pyval) list"

record table_data =
  columns :: "column_desc list"
  data :: "row_data list"
  totalRows :: nat
  shape :: "nat \<times> nat"

text \<open>
  Lines 69 to 76, the conversion of one value. With a Series for \<open>value\<close>,
  \<^verbatim>\<open>pd.isna(value)\<close> is a Series and the \<^verbatim>\<open>if\<close> raises.
\<close>

definition coerce_value :: "pyval \<Rightarrow> pyval" where
  "coerce_value v =
     (if isna v then PyStr ''N/A''
      else if isinstance_int_float v then v
      else if isinstance_datetime v then PyStr (strftime (the_datetime v))
      else PyStr (py_str v))"

definition coerce_item :: "item \<Rightarrow> exn + pyval" where
  "coerce_item it =
     (case it of
        Scalar v \<Rightarrow> Inr (coerce_value v)
      | SubSeries vs \<Rightarrow> Inl (ValueError
          ''The truth value of a Series is ambiguous. Use a.empty, a.bool(), a.item(), a.any() or a.all().''))"

text \<open>Line 59 and 60: the list of column descriptors.\<close>

fun columns_loop :: "dataframe \<Rightarrow> label list \<Rightarrow> exn + column_desc list" where
  "columns_loop df [] = Inr []"
| "columns_loop df (col # cols) =
     (case column_dtype df col of
        Inl e \<Rightarrow> Inl e
      | Inr dt \<Rightarrow>
          (case columns_loop df cols of
             Inl e \<Rightarrow> Inl e
           | Inr ds \<Rightarrow> Inr (\<lparr>key = col, title_of = col, dataType = dtype_str dt\<rparr> # ds)))"

text \<open>Lines 66 to 76: the loop over the columns, filling \<open>row_data\<close>.\<close>

fun cols_loop :: "series \<Rightarrow> label list \<Rightarrow> row_data \<Rightarrow> exn + row_data" where
  "cols_loop row [] rd = Inr rd"
| "cols_loop row (col # cols) rd =
     (case series_getitem row col of
        Inl e \<Rightarrow> Inl e
      | Inr it \<Rightarrow>
          (case coerce_item it of
             Inl e \<Rightarrow> Inl e
           | Inr v \<Rightarrow> cols_loop row cols (dict_set rd col v)))"

text \<open>Lines 63 to 77: the loop over the rows, appending to \<open>data\<close>.\<close>

fun rows_loop :: "label list \<Rightarrow> (label \<times> series) list \<Rightarrow> row_data list \<Rightarrow> exn + row_data list" where
  "rows_loop cols [] acc = Inr acc"
| "rows_loop cols ((idx, row) # rest) acc =
     (case cols_loop row cols [(LStr ''_index'', PyStr (label_str idx))] of
        Inl e \<Rightarrow> Inl e
      | Inr rd \<Rightarrow> rows_loop cols rest (acc @ [rd]))"

text \<open>
  Lines 45 to 84, \<^verbatim>\<open>_prepare_table_data\<close>: the copy, the filled copy (to which the local
  name \<^verbatim>\<open>df\<close> is bound from then on), the descriptors, the records, and the dict returned.
\<close>

definition prepare_table_data :: "PandasTablePage \<Rightarrow> heap \<Rightarrow> (exn + table_data) \<times> heap" where
  "prepare_table_data self h =
     (let (df0, h1) = df_copy (dataframe self) h
      in case df_fillna df0 (PyStr ''N/A'') h1 of
           (Inl e, h2) \<Rightarrow> (Inl e, h2)
         | (Inr df, h2) \<Rightarrow>
             (let frame = h2 ! df
              in case columns_loop frame (df_columns frame) of
                   Inl e \<Rightarrow> (Inl e, h2)
                 | Inr cds \<Rightarrow>
                     (case rows_loop (df_columns frame) (iterrows frame) [] of
                        Inl e \<Rightarrow> (Inl e, h2)
                      | Inr rds \<Rightarrow>
                          (Inr \<lparr>columns = cds, data = rds, totalRows = length (df_index frame),
                                shape = (length (df_index frame), length (df_columns frame))\<rparr>,
                           h2))))"

text \<open>
  The display tree: a node is a dict \<^verbatim>\<open>{"type": ..., "props": {...}}\<close>; the entries of
  \<^verbatim>\<open>props\<close> are kept in the order of the dict literal.
\<close>

datatype component = Elem (ctype: string) (props: "(string \<times> propv) list")
  and propv =
    PStr string
  | PStyle "(string \<times> string) list"
  | PStyles "(string \<times> (string \<times> string) list) list"
  | PChildren "component list"
  | PColumns "column_desc list"
  | PData "row_data list"

text \<open>
  The process state: the store of frames, whether \<^verbatim>\<open>sys\<close> has the attribute
  \<^verbatim>\<open>_cacao_pandas_viewer_running\<close>, the lines printed to the two streams, and the desktop
  windows the framework has opened (each by the arguments of its \<^verbatim>\<open>brew\<close> call).
\<close>

record brew_args =
  brew_type :: string
  brew_title :: string
  brew_width :: int
  brew_height :: int
  resizable :: bool
  fullscreen :: bool

record world =
  frames :: heap
  viewer_running :: bool
  stdout :: "string list"
  stderr :: "string list"
  windows :: "brew_args list"

definition print_out :: "string \<Rightarrow> world \<Rightarrow> world" where
  "print_out line w = w\<lparr>stdout := stdout w @ [line]\<rparr>"


text \<open>
  A \<^verbatim>\<open>pathlib.Path\<close> (POSIX flavour): the root and the components, without the empty
  ones and the dots.
\<close>

record path =
  root :: string
  parts :: "string list"

text \<open>
  What the code imports and does not define: the cacao framework (the import test of
  lines 8 to 13, the plugin, the table component, the application object), the pandas
  readers, and the random sample frame. A reader call stands for the whole call, the
  binding of the keyword arguments included; it returns the reference of a new frame.
  An application, and the table component the plugin returns, are handles.
\<close>

type_synonym kwargs = "(string \<times> pyval) list"

record env =
  CACAO_COMPONENTS_AVAILABLE :: bool
  PandasTablePlugin :: "bool \<Rightarrow> nat \<Rightarrow> nat \<Rightarrow> exn + plugin"
  plugin_process :: "plugin \<Rightarrow> nat \<Rightarrow> world \<Rightarrow> (exn + nat) \<times> world"
  table_component_render :: "nat \<Rightarrow> world \<Rightarrow> (exn + component) \<times> world"
  Table_render :: "label list \<Rightarrow> pyval list list \<Rightarrow> exn + component"
  App :: "world \<Rightarrow> (exn + nat) \<times> world"
  app_mix :: "nat \<Rightarrow> string \<Rightarrow> PandasTablePage \<Rightarrow> world \<Rightarrow> (exn + unit) \<times> world"
  app_brew :: "nat \<Rightarrow> brew_args \<Rightarrow> world \<Rightarrow> (exn + unit) \<times> world"
  read_csv :: "path \<Rightarrow> kwargs \<Rightarrow> world \<Rightarrow> (exn + nat) \<times> world"
  read_excel :: "path \<Rightarrow> kwargs \<Rightarrow> world \<Rightarrow> (exn + nat) \<times> world"
  read_json :: "path \<Rightarrow> kwargs \<Rightarrow> world \<Rightarrow> (exn + nat) \<times> world"
  read_parquet :: "path \<Rightarrow> kwargs \<Rightarrow> world \<Rightarrow> (exn + nat) \<times> world"
  read_pickle :: "path \<Rightarrow> kwargs \<Rightarrow> world \<Rightarrow> (exn + nat) \<times> world"
  sample_frame :: "world \<Rightarrow> (exn + nat) \<times> world"

text \<open>An argument of the constructor: a frame, by reference, or any other object.\<close>

datatype pyobj = DataFrame nat | NotDataFrame pyval

text \<open>Lines 21 to 43, \<^verbatim>\<open>__init__\<close>.\<close>

definition PandasTablePage_init ::
  "env \<Rightarrow> pyobj \<Rightarrow> string option \<Rightarrow> string \<Rightarrow> exn + PandasTablePage" where
  "PandasTablePage_init env df ttl md =
     (case df of
        NotDataFrame v \<Rightarrow> Inl (ValueError ''Input must be a pandas DataFrame'')
      | DataFrame r \<Rightarrow>
          if CACAO_COMPONENTS_AVAILABLE env then
            (case PandasTablePlugin env (md = ''advanced'') 100 1 of
               Inl e \<Rightarrow> Inl e
             | Inr p \<Rightarrow> Inr \<lparr>dataframe = r, title = ttl, mode = md, plugin = Some p\<rparr>)
          else Inr \<lparr>dataframe = r, title = ttl, mode = md, plugin = None\<rparr>)"

text \<open>Lines 86 to 152, \<^verbatim>\<open>_create_toolbar\<close>, which reads the shape of the stored frame.\<close>

definition button_style :: "string \<Rightarrow> (string \<times> string) list" where
  "button_style colour =
     [(''padding'', ''6px 12px''), (''backgroundColor'', colour), (''color'', ''white''),
      (''border'', ''none''), (''borderRadius'', ''4px''), (''cursor'', ''pointer''),
      (''fontSize'', ''13px''), (''fontWeight'', ''500'')]"

definition create_toolbar :: "PandasTablePage \<Rightarrow> heap \<Rightarrow> component" where
  "create_toolbar self h =
     Elem ''div''
       [(''style'', PStyle
           [(''display'', ''flex''), (''alignItems'', ''center''), (''padding'', ''8px 12px''),
            (''backgroundColor'', ''#F8F9FA''), (''borderBottom'', ''1px solid #E2E8F0''),
            (''gap'', ''8px''), (''fontFamily'', ''Arial, sans-serif''), (''fontSize'', ''13px'')]),
        (''children'', PChildren
           [Elem ''button''
              [(''label'', PStr ''Download CSV''), (''style'', PStyle (button_style ''#4CAF50''))],
            Elem ''button''
              [(''label'', PStr ''Download Excel''), (''style'', PStyle (button_style ''#2196F3''))],
            Elem ''div''
              [(''style'', PStyle
                  [(''marginLeft'', ''auto''), (''color'', ''#666''), (''fontSize'', ''12px'')]),
               (''content'', PStr
                  (''Rows: '' @ str_nat (length (df_index (h ! dataframe self))) @
                   '' | Columns: '' @ str_nat (length (df_columns (h ! dataframe self)))))]])]"

text \<open>Lines 239 to 283, \<^verbatim>\<open>_create_simple_table\<close>.\<close>

definition table_style :: "(string \<times> string) list" where
  "table_style =
     [(''width'', ''100%''), (''border'', ''1px solid #D4D4D4''), (''borderCollapse'', ''collapse''),
      (''fontSize'', ''13px''), (''fontFamily'', ''Arial, sans-serif''),
      (''backgroundColor'', ''#FFFFFF'')]"

definition cell_style :: "(string \<times> string) list" where
  "cell_style =
     [(''padding'', ''6px 8px''), (''border'', ''1px solid #D4D4D4''), (''textAlign'', ''left''),
      (''verticalAlign'', ''top'')]"

definition create_simple_table :: "table_data \<Rightarrow> component" where
  "create_simple_table td =
     Elem ''table''
       [(''id'', PStr ''pandasTable''),
        (''columns'', PColumns (columns td)),
        (''data'', PData (data td)),
        (''style'', PStyle table_style),
        (''headerStyle'', PStyle
           [(''backgroundColor'', ''#F2F2F2''), (''fontWeight'', ''bold''), (''padding'', ''6px 8px''),
            (''textAlign'', ''left''), (''border'', ''1px solid #D4D4D4''), (''color'', ''#333333'')]),
        (''cellStyle'', PStyle cell_style),
        (''rowStyle'', PStyles [(''hover'', [(''backgroundColor'', ''#E8F4FD'')])])]"

text \<open>
  Lines 285 to 351, \<^verbatim>\<open>_create_advanced_table\<close>. \<open>dict_get\<close> is
  \<^verbatim>\<open>row_data.get(key, "")\<close>.
\<close>

definition dict_get :: "row_data \<Rightarrow> label \<Rightarrow> pyval" where
  "dict_get rd k = (case map_of rd k of None \<Rightarrow> PyStr [] | Some v \<Rightarrow> v)"

definition create_advanced_table :: "env \<Rightarrow> table_data \<Rightarrow> exn + component" where
  "create_advanced_table env td =
     (if CACAO_COMPONENTS_AVAILABLE env then
        Table_render env (map title_of (columns td))
          (map (\<lambda>rd. map (\<lambda>col. dict_get rd (key col)) (columns td)) (data td))
      else
        Inr (Elem ''table''
          [(''id'', PStr ''pandasAdvancedTable''),
           (''columns'', PColumns (columns td)),
           (''data'', PData (data td)),
           (''style'', PStyle table_style),
           (''headerStyle'', PStyle
              [(''backgroundColor'', ''#F2F2F2''), (''color'', ''#333333''), (''fontWeight'', ''bold''),
               (''padding'', ''6px 8px''), (''textAlign'', ''left''),
               (''border'', ''1px solid #D4D4D4''), (''position'', ''sticky''), (''top'', ''0''),
               (''zIndex'', ''1'')]),
           (''cellStyle'', PStyle cell_style),
           (''rowStyle'', PStyles
              [(''hover'', [(''backgroundColor'', ''#E8F4FD'')]),
               (''alternating'', [(''backgroundColor'', ''#FAFAFA'')])])]))"

text \<open>Lines 224 to 237, \<^verbatim>\<open>_create_table_component\<close>.\<close>

definition create_table_component :: "env \<Rightarrow> PandasTablePage \<Rightarrow> table_data \<Rightarrow> exn + component" where
  "create_table_component env self td =
     (if mode self = ''simple'' then Inr (create_simple_table td)
      else create_advanced_table env td)"

text \<open>
  Lines 154 to 222, \<^verbatim>\<open>render\<close>. Both branches return the same layout around the
  toolbar and the table; the dict literal evaluates the toolbar before the table.
\<close>

definition layout :: "component \<Rightarrow> component \<Rightarrow> component" where
  "layout toolbar table =
     Elem ''div''
       [(''style'', PStyle
           [(''height'', ''100%''), (''display'', ''flex''), (''flexDirection'', ''column''),
            (''backgroundColor'', ''#FFFFFF''), (''fontFamily'', ''Arial, sans-serif'')]),
        (''children'', PChildren
           [toolbar,
            Elem ''div''
              [(''style'', PStyle
                  [(''flex'', ''1''), (''overflow'', ''auto''), (''border'', ''1px solid #E2E8F0'')]),
               (''children'', PChildren [table])]])]"

definition render :: "env \<Rightarrow> PandasTablePage \<Rightarrow> world \<Rightarrow> (exn + component) \<times> world" where
  "render env self w =
     (if CACAO_COMPONENTS_AVAILABLE env then
        (case plugin self of
           None \<Rightarrow>
             (Inl (AttributeError
                ([CHR 0x27] @ ''PandasTablePage'' @ [CHR 0x27] @ '' object has no attribute '' @
                 [CHR 0x27] @ ''plugin'' @ [CHR 0x27])), w)
         | Some p \<Rightarrow>
             (case plugin_process env p (dataframe self) w of
                (Inl e, w1) \<Rightarrow> (Inl e, w1)
              | (Inr table_component, w1) \<Rightarrow>
                  (case table_component_render env table_component w1 of
                     (Inl e, w2) \<Rightarrow> (Inl e, w2)
                   | (Inr c, w2) \<Rightarrow> (Inr (layout (create_toolbar self (frames w1)) c), w2))))
      else
        (case prepare_table_data self (frames w) of
           (Inl e, h) \<Rightarrow> (Inl e, w\<lparr>frames := h\<rparr>)
         | (Inr td, h) \<Rightarrow>
             (case create_table_component env self td of
                Inl e \<Rightarrow> (Inl e, w\<lparr>frames := h\<rparr>)
              | Inr c \<Rightarrow> (Inr (layout (create_toolbar self h) c), w\<lparr>frames := h\<rparr>))))"

text \<open>
  Lines 354 to 414, \<^verbatim>\<open>preview_dataframe\<close>: first the body of the \<^verbatim>\<open>try\<close> (the
  import of \<^verbatim>\<open>App\<close> is part of the call \<open>App\<close>), then the function with the guard
  and the \<^verbatim>\<open>finally\<close> clause. The route handler registered by \<^verbatim>\<open>mix\<close> is the call
  \<^verbatim>\<open>viewer.render()\<close>, so the model hands \<^verbatim>\<open>mix\<close> the viewer.
\<close>

definition preview_body ::
  "env \<Rightarrow> pyobj \<Rightarrow> string option \<Rightarrow> int \<Rightarrow> int \<Rightarrow> string \<Rightarrow> world \<Rightarrow> (exn + unit) \<times> world" where
  "preview_body env df ttl width height md w =
     (case App env w of
        (Inl e, w1) \<Rightarrow> (Inl e, w1)
      | (Inr app, w1) \<Rightarrow>
          (case PandasTablePage_init env df ttl md of
             Inl e \<Rightarrow> (Inl e, w1)
           | Inr viewer \<Rightarrow>
               (case app_mix env app ''/'' viewer w1 of
                  (Inl e, w2) \<Rightarrow> (Inl e, w2)
                | (Inr u, w2) \<Rightarrow>
                    app_brew env app
                      \<lparr>brew_type = ''desktop'',
                       brew_title = (case ttl of None \<Rightarrow> ''Pandas DataFrame Viewer''
                                     | Some t \<Rightarrow> if t = [] then ''Pandas DataFrame Viewer'' else t),
                       brew_width = width, brew_height = height,
                       resizable = True, fullscreen = False\<rparr> w2)))"

definition preview_dataframe ::
  "env \<Rightarrow> pyobj \<Rightarrow> string option \<Rightarrow> int \<Rightarrow> int \<Rightarrow> string \<Rightarrow> world \<Rightarrow> (exn + unit) \<times> world" where
  "preview_dataframe env df ttl width height md w =
     (if viewer_running w then
        (Inr (), print_out ''Warning: Cacao Pandas UI is already running. Ignoring duplicate call.'' w)
      else
        (case preview_body env df ttl width height md (w\<lparr>viewer_running := True\<rparr>) of
           (r, w') \<Rightarrow> (r, w'\<lparr>viewer_running := False\<rparr>)))"

text \<open>
  Lines 417 to 442, the module's functions \<^verbatim>\<open>create_simple_table\<close> and
  \<^verbatim>\<open>create_advanced_table\<close> (without keyword arguments), named apart from the methods of
  lines 239 and 285.
\<close>

definition create_simple_table_page :: "env \<Rightarrow> pyobj \<Rightarrow> exn + PandasTablePage" where
  "create_simple_table_page env df = PandasTablePage_init env df None ''simple''"

definition create_advanced_table_page :: "env \<Rightarrow> pyobj \<Rightarrow> exn + PandasTablePage" where
  "create_advanced_table_page env df = PandasTablePage_init env df None ''advanced''"

section \<open>cli.py\<close>

text \<open>
  \<^verbatim>\<open>Path(filepath)\<close> on a POSIX system, \<^verbatim>\<open>str(path)\<close>, \<^verbatim>\<open>path.name\<close> and
  \<^verbatim>\<open>path.suffix\<close> (the part of the name from its last dot, when that dot is neither
  the first nor the last character), and \<^verbatim>\<open>s.lower()\<close> on ASCII letters.
\<close>

fun split_sep :: "char \<Rightarrow> string \<Rightarrow> string list" where
  "split_sep c [] = [[]]"
| "split_sep c (x # xs) =
     (if x = c then [] # split_sep c xs
      else (case split_sep c xs of [] \<Rightarrow> [[x]] | p # ps \<Rightarrow> (x # p) # ps))"

fun join_sep :: "string \<Rightarrow> string list \<Rightarrow> string" where
  "join_sep sep [] = []"
| "join_sep sep [p] = p"
| "join_sep sep (p # q # ps) = p @ sep @ join_sep sep (q # ps)"

definition Path :: "string \<Rightarrow> path" where
  "Path s =
     \<lparr>root = (if take 1 s \<noteq> ''/'' then []
              else if take 2 s = ''//'' \<and> take 3 s \<noteq> ''///'' then ''//''
              else ''/''),
      parts = filter (\<lambda>x. x \<noteq> [] \<and> x \<noteq> ''.'') (split_sep (CHR ''/'') s)\<rparr>"

definition path_str :: "path \<Rightarrow> string" where
  "path_str p =
     (if root p \<noteq> [] then root p @ join_sep ''/'' (parts p)
      else if parts p = [] then ''.''
      else join_sep ''/'' (parts p))"

definition path_name :: "path \<Rightarrow> string" where
  "path_name p = (if parts p = [] then [] else last (parts p))"

definition rfind :: "char \<Rightarrow> string \<Rightarrow> nat option" where
  "rfind c s =
     (if c \<in> set s then Some (length s - 1 - length (takeWhile (\<lambda>x. x \<noteq> c) (rev s)))
      else None)"

definition suffix :: "path \<Rightarrow> string" where
  "suffix p =
     (case rfind (CHR ''.'') (path_name p) of
        None \<Rightarrow> []
      | Some i \<Rightarrow> if 0 < i \<and> i + 1 < length (path_name p) then drop i (path_name p) else [])"

definition lower_char :: "char \<Rightarrow> char" where
  "lower_char c =
     (case map_of (zip ''ABCDEFGHIJKLMNOPQRSTUVWXYZ'' ''abcdefghijklmnopqrstuvwxyz'') c of
        None \<Rightarrow> c
      | Some l \<Rightarrow> l)"

definition lower :: "string \<Rightarrow> string" where
  "lower s = map lower_char s"


text \<open>
  Lines 12 to 46, \<^verbatim>\<open>load_dataframe_from_file\<close>: first the body of the \<^verbatim>\<open>try\<close>, the
  dispatch on the extension, then the function with its \<^verbatim>\<open>except Exception\<close> clause.
\<close>

definition load_body :: "env \<Rightarrow> path \<Rightarrow> string \<Rightarrow> kwargs \<Rightarrow> world \<Rightarrow> (exn + nat) \<times> world" where
  "load_body env filepath file_extension kw w =
     (if file_extension = ''.csv'' then read_csv env filepath kw w
      else if file_extension \<in> set [''.xlsx'', ''.xls''] then read_excel env filepath kw w
      else if file_extension = ''.json'' then read_json env filepath kw w
      else if file_extension = ''.parquet'' then read_parquet env filepath kw w
      else if file_extension \<in> set [''.tsv'', ''.tab''] then
        read_csv env filepath ((''sep'', PyStr [CHR 0x09]) # kw) w
      else if file_extension = ''.pkl'' \<or> file_extension = ''.pickle'' then
        read_pickle env filepath kw w
      else (Inl (ValueError (''Unsupported file format: '' @ file_extension)), w))"

definition load_dataframe_from_file :: "env \<Rightarrow> string \<Rightarrow> kwargs \<Rightarrow> world \<Rightarrow> (exn + nat) \<times> world" where
  "load_dataframe_from_file env filepath kw w =
     (let filepath = Path filepath;
          file_extension = lower (suffix filepath)
      in case load_body env filepath file_extension kw w of
           (Inl e, w') \<Rightarrow>
             if is_Exception e then
               (Inl (Exception (''Error loading file '' @ [CHR 0x27] @ path_str filepath @
                                [CHR 0x27] @ '': '' @ exn_str e)), w')
             else (Inl e, w')
         | (Inr df, w') \<Rightarrow> (Inr df, w'))"










section \<open>Notions used to state the properties\<close>





text \<open>
  A sequence of calls of \<^verbatim>\<open>render\<close> and \<^verbatim>\<open>_prepare_table_data\<close> on one page, whatever
  each returns or raises. \<open>keeps_frames w w'\<close>: every frame of \<open>w\<close> is in \<open>w'\<close>, under the
  same reference and with the same contents.
\<close>

datatype call = Render | Prepare

fun run_call :: "env \<Rightarrow> PandasTablePage \<Rightarrow> call \<Rightarrow> world \<Rightarrow> world" where
  "run_call env self Render w = snd (render env self w)"
| "run_call env self Prepare w = w\<lparr>frames := snd (prepare_table_data self (frames w))\<rparr>"

definition run_calls :: "env \<Rightarrow> PandasTablePage \<Rightarrow> call list \<Rightarrow> world \<Rightarrow> world" where
  "run_calls env self cs w = foldl (\<lambda>w c. run_call env self c w) w cs"

definition keeps_frames :: "world \<Rightarrow> world \<Rightarrow> bool" where
  "keeps_frames w w' \<longleftrightarrow> take (length (frames w)) (frames w') = frames w"

section \<open>Sample inputs\<close>

text \<open>
  An environment without the cacao components, in which the framework calls return at
  once, \<^verbatim>\<open>brew\<close> records its window, and no file can be read; and frames: one of mixed
  dtypes (its rows are of dtype \<^verbatim>\<open>object\<close> and yield built-in objects), one with a single
  \<^verbatim>\<open>int64\<close> column (its rows yield numpy integers), one with a column named
  \<^verbatim>\<open>_index\<close>, one with a categorical column in which a value is missing, and one without
  rows.
\<close>

definition no_file :: "path \<Rightarrow> kwargs \<Rightarrow> world \<Rightarrow> (exn + nat) \<times> world" where
  "no_file p kw w = (Inl (OtherError ''FileNotFoundError'' ''No such file or directory''), w)"

definition new_year :: datetime where
  "new_year = \<lparr>year = 2023, month = 1, day = 1, hour = 0, minute = 0, second = 0, microsecond = 0\<rparr>"

definition people :: dataframe where
  "people =
     \<lparr>df_columns = [LStr ''Name'', LStr ''Age'', LStr ''Joined'', LStr ''Score'', LStr ''Active''],
      df_index = [LInt 0, LInt 1],
      df_dtypes = [Dtype ''object'', Dtype ''int64'', Dtype ''datetime64[ns]'', Dtype ''float64'',
                   Dtype ''bool''],
      df_cells =
        [[PyStr ''Alice'', PyInt 25, PyDatetime new_year, PyNaN, PyBool True],
         [PyStr ''Bob'', PyInt 30, PyNaT, PyFloat ''4.5'', PyBool False]]\<rparr>"

definition counts :: dataframe where
  "counts =
     \<lparr>df_columns = [LStr ''a''], df_index = [LInt 0, LInt 1],
      df_dtypes = [Dtype ''int64''],
      df_cells = [[NpInt 1], [NpInt 2]]\<rparr>"

definition index_named :: dataframe where
  "index_named =
     \<lparr>df_columns = [LStr ''_index'', LStr ''v''], df_index = [LInt 0],
      df_dtypes = [Dtype ''object'', Dtype ''object''],
      df_cells = [[PyStr ''x'', PyStr ''y'']]\<rparr>"

definition graded :: dataframe where
  "graded =
     \<lparr>df_columns = [LStr ''Name'', LStr ''Grade''], df_index = [LInt 0, LInt 1],
      df_dtypes = [Dtype ''object'', CategoricalDtype [PyStr ''Good'', PyStr ''Better'', PyStr ''Best'']],
      df_cells = [[PyStr ''Alice'', PyStr ''Good''], [PyStr ''Bob'', PyNaN]]\<rparr>"


definition basic_env :: env where
  "basic_env =
     \<lparr>CACAO_COMPONENTS_AVAILABLE = False,
      PandasTablePlugin =
        (\<lambda>e r m. Inr \<lparr>enhanced_mode = e, row_threshold = r, memory_threshold_mb = m\<rparr>),
      plugin_process = (\<lambda>p r w. (Inr 0, w)),
      table_component_render = (\<lambda>t w. (Inr (Elem ''table'' []), w)),
      Table_render = (\<lambda>hs rs. Inr (Elem ''table'' [])),
      App = (\<lambda>w. (Inr 0, w)),
      app_mix = (\<lambda>app route viewer w. (Inr (), w)),
      app_brew = (\<lambda>app b w. (Inr (), w\<lparr>windows := windows w @ [b]\<rparr>)),
      read_csv = no_file, read_excel = no_file, read_json = no_file,
      read_parquet = no_file, read_pickle = no_file,
      sample_frame = (\<lambda>w. (Inr (length (frames w)), w\<lparr>frames := frames w @ [people]\<rparr>))\<rparr>"

definition blank :: world where
  "blank = \<lparr>frames = [], viewer_running = False, stdout = [], stderr = [], windows = []\<rparr>"

definition viewer_of :: "nat \<Rightarrow> PandasTablePage" where
  "viewer_of r = \<lparr>dataframe = r, title = None, mode = ''simple'', plugin = None\<rparr>"

text \<open>
  An environment in which the framework, once the window is open, runs the script again
  (a reload): \<^verbatim>\<open>brew\<close> records the window and calls \<^verbatim>\<open>preview_dataframe\<close> before it
  returns.
\<close>

definition reload_env :: env where
  "reload_env =
     basic_env\<lparr>app_brew :=
       (\<lambda>app b w. preview_dataframe basic_env (DataFrame 0) None 1000 700 ''advanced''
                    (w\<lparr>windows := windows w @ [b]\<rparr>))\<rparr>"






section \<open>Auxiliary lemmas\<close>

lemma dict_set_keys:
  "map fst (dict_set d k v) = (if k \<in> set (map fst d) then map fst d else map fst d @ [k])"
  by (induction d) force+

lemma map_of_dict_set: "map_of (dict_set d k v) = (map_of d)(k \<mapsto> v)"
  by (induction d) (auto simp: fun_eq_iff)

lemma filter_key_unique:
  "distinct (map fst row) \<Longrightarrow> map_of row c = Some v \<Longrightarrow> filter (\<lambda>(k, v). k = c) row = [(c, v)]"
proof (induction row)
  case Nil
  then show ?case by simp
next
  case (Cons kv row)
  obtain k u where kv: "kv = (k, u)" by (cases kv)
  show ?case
  proof (cases "k = c")
    case True
    with Cons.prems kv have "u = v" by simp
    moreover from Cons.prems kv True have "c \<notin> fst ` set row" by simp
    then have "filter (\<lambda>(k, v). k = c) row = []"
      by (force simp: filter_empty_conv)
    ultimately show ?thesis using kv True by simp
  next
    case False
    with Cons kv show ?thesis by simp
  qed
qed

lemma series_getitem_unique:
  "distinct (map fst row) \<Longrightarrow> map_of row c = Some v \<Longrightarrow> series_getitem row c = Inr (Scalar v)"
  by (simp add: series_getitem_def filter_key_unique)

lemma cols_loop_foldl:
  "distinct (map fst row) \<Longrightarrow> set cs \<subseteq> fst ` set row \<Longrightarrow>
   cols_loop row cs rd =
     Inr (foldl (\<lambda>rd c. dict_set rd c (coerce_value (the (map_of row c)))) rd cs)"
proof (induction cs arbitrary: rd)
  case Nil
  then show ?case by simp
next
  case (Cons c cs)
  from Cons.prems obtain v where v: "map_of row c = Some v"
    by (metis list.set_intros(1) subsetD weak_map_of_SomeI image_iff prod.collapse map_of_eq_None_iff not_Some_eq)
  with Cons show ?case
    by (simp add: series_getitem_unique coerce_item_def)
qed

lemma foldl_dict_set_keys:
  "distinct cs \<Longrightarrow> set cs \<inter> set (map fst d) = {} \<Longrightarrow>
   map fst (foldl (\<lambda>rd c. dict_set rd c (f c)) d cs) = map fst d @ cs"
proof (induction cs arbitrary: d)
  case Nil
  then show ?case by simp
next
  case (Cons c cs)
  from Cons.prems have keys: "map fst (dict_set d c (f c)) = map fst d @ [c]"
    by (simp add: dict_set_keys)
  from Cons.prems have "set cs \<inter> set (map fst (dict_set d c (f c))) = {}"
    unfolding keys by auto
  with Cons.IH [of "dict_set d c (f c)"] Cons.prems keys show ?case by simp
qed

lemma map_of_foldl_dict_set:
  "distinct cs \<Longrightarrow>
   map_of (foldl (\<lambda>rd c. dict_set rd c (f c)) d cs) k =
     (if k \<in> set cs then Some (f k) else map_of d k)"
  by (induction cs arbitrary: d) (auto simp: map_of_dict_set)

lemma rows_loop_map:
  "list_all (\<lambda>(idx, row). distinct (map fst row) \<and> set cs \<subseteq> fst ` set row) rows \<Longrightarrow>
   rows_loop cs rows acc =
     Inr (acc @ map (\<lambda>(idx, row).
            foldl (\<lambda>rd c. dict_set rd c (coerce_value (the (map_of row c))))
              [(LStr ''_index'', PyStr (label_str idx))] cs) rows)"
  by (induction rows arbitrary: acc) (auto simp: cols_loop_foldl)

lemma column_dtype_unique:
  "distinct (df_columns df) \<Longrightarrow> length (df_dtypes df) = length (df_columns df) \<Longrightarrow>
   j < length (df_columns df) \<Longrightarrow>
   column_dtype df (df_columns df ! j) = Inr (df_dtypes df ! j)"
  by (simp add: column_dtype_def filter_key_unique map_of_zip_nth)

lemma columns_loop_ok:
  "distinct (df_columns df) \<Longrightarrow> length (df_dtypes df) = length (df_columns df) \<Longrightarrow>
   set cs \<subseteq> set (df_columns df) \<Longrightarrow>
   \<exists>cds. columns_loop df cs = Inr cds \<and> map key cds = cs \<and> map title_of cds = cs"
proof (induction cs)
  case Nil
  then show ?case by simp
next
  case (Cons c cs)
  then obtain j where "j < length (df_columns df)" "c = df_columns df ! j"
    by (auto simp: in_set_conv_nth)
  with Cons.prems have "column_dtype df c = Inr (df_dtypes df ! j)"
    by (simp add: column_dtype_unique)
  with Cons show ?case by auto
qed

lemma fill_frame_fields:
  "df_columns (fill_frame df v) = df_columns df"
  "df_index (fill_frame df v) = df_index df"
  "df_cells (fill_frame df v) = map (map (fill_cell v)) (df_cells df)"
  "length (df_dtypes (fill_frame df v)) = length (df_dtypes df)"
  by (simp_all add: fill_frame_def)

lemma iterrows_fillna_length:
  "wf_frame df \<Longrightarrow> length (iterrows (fill_frame df v)) = length (df_index df)"
  by (simp add: iterrows_def fill_frame_fields wf_frame_def)

lemma iterrows_fillna_nth:
  "wf_frame df \<Longrightarrow> i < length (df_index df) \<Longrightarrow>
   iterrows (fill_frame df v) ! i =
     (df_index df ! i, zip (df_columns df) (map (fill_cell v) (df_cells df ! i)))"
  by (simp add: iterrows_def fill_frame_fields wf_frame_def)

lemma iterrows_rows_ok:
  assumes "wf_frame df" "distinct (df_columns df)"
  shows "list_all (\<lambda>(idx, row). distinct (map fst row) \<and> set (df_columns df) \<subseteq> fst ` set row)
           (iterrows (fill_frame df v))"
proof -
  have "distinct (map fst row) \<and> set (df_columns df) \<subseteq> fst ` set row"
    if "(idx, row) \<in> set (iterrows (fill_frame df v))" for idx row
  proof -
    from that obtain vs where vs: "vs \<in> set (df_cells df)"
      and row: "row = zip (df_columns df) (map (fill_cell v) vs)"
      by (auto simp: iterrows_def fill_frame_fields dest!: set_zip_rightD)
    from vs assms(1) have len: "length vs = length (df_columns df)"
      by (simp add: wf_frame_def list_all_iff)
    then have "map fst row = df_columns df" unfolding row by simp
    with assms(2) show ?thesis by (metis set_map order_refl)
  qed
  then show ?thesis by (auto simp: list_all_iff)
qed

lemma prepare_table_data_eq:
  assumes r: "dataframe self < length h"
    and wf: "wf_frame (h ! dataframe self)"
    and dist: "distinct (df_columns (h ! dataframe self))"
    and acc: "fill_accepted (h ! dataframe self) (PyStr ''N/A'')"
  shows "\<exists>cds. map key cds = df_columns (h ! dataframe self) \<and>
     map title_of cds = df_columns (h ! dataframe self) \<and>
     prepare_table_data self h =
       (Inr \<lparr>columns = cds,
             data = map (\<lambda>(idx, row).
                      foldl (\<lambda>rd c. dict_set rd c (coerce_value (the (map_of row c))))
                        [(LStr ''_index'', PyStr (label_str idx))] (df_columns (h ! dataframe self)))
                    (iterrows (fill_frame (h ! dataframe self) (PyStr ''N/A''))),
             totalRows = length (df_index (h ! dataframe self)),
             shape = (length (df_index (h ! dataframe self)), length (df_columns (h ! dataframe self)))\<rparr>,
        h @ [h ! dataframe self, fill_frame (h ! dataframe self) (PyStr ''N/A'')])"
proof -
  define df where "df = h ! dataframe self"
  define F where "F = fill_frame df (PyStr ''N/A'')"
  have cols: "df_columns F = df_columns df" and idx: "df_index F = df_index df"
    by (simp_all add: F_def fill_frame_fields)
  have "distinct (df_columns F)" "length (df_dtypes F) = length (df_columns F)"
    using wf dist by (simp_all add: F_def fill_frame_fields df_def wf_frame_def)
  then obtain cds where cds: "columns_loop F (df_columns F) = Inr cds"
    "map key cds = df_columns F" "map title_of cds = df_columns F"
    using columns_loop_ok [of F "df_columns F"] by auto
  have rows: "rows_loop (df_columns F) (iterrows F) [] =
     Inr (map (\<lambda>(idx, row).
            foldl (\<lambda>rd c. dict_set rd c (coerce_value (the (map_of row c))))
              [(LStr ''_index'', PyStr (label_str idx))] (df_columns F)) (iterrows F))"
    using rows_loop_map [OF iterrows_rows_ok [OF wf dist, of "PyStr ''N/A''"], of "[]"]
    by (simp add: F_def df_def cols fill_frame_fields)
  have "prepare_table_data self h =
       (Inr \<lparr>columns = cds,
             data = map (\<lambda>(idx, row).
                      foldl (\<lambda>rd c. dict_set rd c (coerce_value (the (map_of row c))))
                        [(LStr ''_index'', PyStr (label_str idx))] (df_columns F)) (iterrows F),
             totalRows = length (df_index F),
             shape = (length (df_index F), length (df_columns F))\<rparr>,
        h @ [df, F])"
    using r cds(1) rows acc
    by (simp add: prepare_table_data_def df_copy_def df_fillna_def fillna_def nth_append F_def
        df_def Let_def)
  with cds(2,3) show ?thesis
    unfolding cols idx unfolding F_def df_def by blast
qed

lemma row_record_lookup:
  assumes "distinct cs" "length vs = length cs" "j < length cs"
  shows "map_of (foldl (\<lambda>rd c. dict_set rd c (coerce_value (the (map_of (zip cs vs) c)))) d cs) (cs ! j)
         = Some (coerce_value (vs ! j))"
  using assms by (simp add: map_of_foldl_dict_set map_of_zip_nth)











lemma prepare_table_data_rows:
  assumes r: "dataframe self < length h"
    and wf: "wf_frame (h ! dataframe self)"
    and dist: "distinct (df_columns (h ! dataframe self))"
    and acc: "fill_accepted (h ! dataframe self) (PyStr ''N/A'')"
  shows "\<exists>td. prepare_table_data self h =
            (Inr td, h @ [h ! dataframe self, fill_frame (h ! dataframe self) (PyStr ''N/A'')]) \<and>
     map key (columns td) = df_columns (h ! dataframe self) \<and>
     totalRows td = length (df_index (h ! dataframe self)) \<and>
     length (data td) = length (df_index (h ! dataframe self)) \<and>
     (\<forall>i < length (df_index (h ! dataframe self)).
        data td ! i =
          foldl (\<lambda>rd c. dict_set rd c (coerce_value (the (map_of
                   (zip (df_columns (h ! dataframe self))
                        (map (fill_cell (PyStr ''N/A'')) (df_cells (h ! dataframe self) ! i))) c))))
            [(LStr ''_index'', PyStr (label_str (df_index (h ! dataframe self) ! i)))]
            (df_columns (h ! dataframe self)))"
proof -
  from prepare_table_data_eq [OF r wf dist acc] obtain cds where
    cds: "map key cds = df_columns (h ! dataframe self)"
    and eq: "prepare_table_data self h =
       (Inr \<lparr>columns = cds,
             data = map (\<lambda>(idx, row).
                      foldl (\<lambda>rd c. dict_set rd c (coerce_value (the (map_of row c))))
                        [(LStr ''_index'', PyStr (label_str idx))] (df_columns (h ! dataframe self)))
                    (iterrows (fill_frame (h ! dataframe self) (PyStr ''N/A''))),
             totalRows = length (df_index (h ! dataframe self)),
             shape = (length (df_index (h ! dataframe self)), length (df_columns (h ! dataframe self)))\<rparr>,
        h @ [h ! dataframe self, fill_frame (h ! dataframe self) (PyStr ''N/A'')])"
    by blast
  show ?thesis
    unfolding eq using cds wf
    by (simp add: iterrows_fillna_length iterrows_fillna_nth)
qed

lemma row_record_keys:
  assumes "distinct cs" "LStr ''_index'' \<notin> set cs"
  shows "map fst (foldl (\<lambda>rd c. dict_set rd c (f c)) [(LStr ''_index'', s)] cs) = LStr ''_index'' # cs"
  using foldl_dict_set_keys [of cs "[(LStr ''_index'', s)]" f] assms by simp

lemma row_record_index:
  assumes "distinct cs" "LStr ''_index'' \<notin> set cs"
  shows "map_of (foldl (\<lambda>rd c. dict_set rd c (f c)) [(LStr ''_index'', s)] cs) (LStr ''_index'') = Some s"
  using assms by (simp add: map_of_foldl_dict_set)

lemma prepare_table_data_cell:
  assumes r: "dataframe self < length h"
    and wf: "wf_frame (h ! dataframe self)"
    and dist: "distinct (df_columns (h ! dataframe self))"
    and i: "i < length (df_index (h ! dataframe self))"
    and j: "j < length (df_columns (h ! dataframe self))"
    and acc: "fill_accepted (h ! dataframe self) (PyStr ''N/A'')"
  shows "\<exists>td. fst (prepare_table_data self h) = Inr td \<and>
     length (data td) = length (df_index (h ! dataframe self)) \<and>
     map_of (data td ! i) (df_columns (h ! dataframe self) ! j) =
       Some (coerce_value (fill_cell (PyStr ''N/A'') (df_cells (h ! dataframe self) ! i ! j)))"
proof -
  from prepare_table_data_rows [OF r wf dist acc] obtain td where
    td: "prepare_table_data self h =
            (Inr td, h @ [h ! dataframe self, fill_frame (h ! dataframe self) (PyStr ''N/A'')])"
    and n: "length (data td) = length (df_index (h ! dataframe self))"
    and rows: "\<forall>i < length (df_index (h ! dataframe self)).
        data td ! i =
          foldl (\<lambda>rd c. dict_set rd c (coerce_value (the (map_of
                   (zip (df_columns (h ! dataframe self))
                        (map (fill_cell (PyStr ''N/A'')) (df_cells (h ! dataframe self) ! i))) c))))
            [(LStr ''_index'', PyStr (label_str (df_index (h ! dataframe self) ! i)))]
            (df_columns (h ! dataframe self))"
    by blast
  from wf i have len: "length (df_cells (h ! dataframe self) ! i) = length (df_columns (h ! dataframe self))"
    by (simp add: wf_frame_def list_all_length)
  from rows i have "data td ! i =
          foldl (\<lambda>rd c. dict_set rd c (coerce_value (the (map_of
                   (zip (df_columns (h ! dataframe self))
                        (map (fill_cell (PyStr ''N/A'')) (df_cells (h ! dataframe self) ! i))) c))))
            [(LStr ''_index'', PyStr (label_str (df_index (h ! dataframe self) ! i)))]
            (df_columns (h ! dataframe self))" by simp
  then have "map_of (data td ! i) (df_columns (h ! dataframe self) ! j) =
       Some (coerce_value (map (fill_cell (PyStr ''N/A'')) (df_cells (h ! dataframe self) ! i) ! j))"
    using row_record_lookup [OF dist _ j, of "map (fill_cell (PyStr ''N/A'')) (df_cells (h ! dataframe self) ! i)"] len
    by simp
  with td n len j show ?thesis by simp
qed

lemma sample_people:
  "wf_frame people" "distinct (df_columns people)" "LStr ''_index'' \<notin> set (df_columns people)"
  "length (df_index people) = 2" "length (df_columns people) = 5"
  "fill_accepted people (PyStr ''N/A'')"
  by (simp_all add: people_def wf_frame_def fill_accepted_def)

text \<open>The conversion of the sample frame of mixed dtypes, in full.\<close>

lemma people_table_data:
  "fst (prepare_table_data (viewer_of 0) [people]) =
     Inr \<lparr>columns =
            [\<lparr>key = LStr ''Name'', title_of = LStr ''Name'', dataType = ''object''\<rparr>,
             \<lparr>key = LStr ''Age'', title_of = LStr ''Age'', dataType = ''int64''\<rparr>,
             \<lparr>key = LStr ''Joined'', title_of = LStr ''Joined'', dataType = ''object''\<rparr>,
             \<lparr>key = LStr ''Score'', title_of = LStr ''Score'', dataType = ''object''\<rparr>,
             \<lparr>key = LStr ''Active'', title_of = LStr ''Active'', dataType = ''bool''\<rparr>],
          data =
            [[(LStr ''_index'', PyStr ''0''), (LStr ''Name'', PyStr ''Alice''), (LStr ''Age'', PyInt 25),
              (LStr ''Joined'', PyStr ''2023-01-01 00:00:00''), (LStr ''Score'', PyStr ''N/A''),
              (LStr ''Active'', PyBool True)],
             [(LStr ''_index'', PyStr ''1''), (LStr ''Name'', PyStr ''Bob''), (LStr ''Age'', PyInt 30),
              (LStr ''Joined'', PyStr ''N/A''), (LStr ''Score'', PyFloat ''4.5''),
              (LStr ''Active'', PyBool False)]],
          totalRows = 2, shape = (2, 5)\<rparr>"
  by (simp add: prepare_table_data_def df_copy_def df_fillna_def viewer_of_def people_def
      fillna_def fill_frame_def fill_dtype_def fill_accepted_def column_has_na_def column_dtype_def iterrows_def series_getitem_def
      coerce_item_def coerce_value_def fill_cell_def Let_def enumerate_eq_zip
      str_int_def str_nat.simps digit_char_def strftime_def zfill_def new_year_def)

lemma columns_loop_each:
  "columns_loop df cs = Inr cds \<Longrightarrow> c \<in> set cs \<Longrightarrow> \<exists>dt. column_dtype df c = Inr dt"
  by (induction cs arbitrary: cds) (auto split: sum.splits)

lemma column_dtype_single:
  "column_dtype df c = Inr dt \<Longrightarrow>
   length (filter (\<lambda>(k, dt). k = c) (zip (df_columns df) (df_dtypes df))) = 1"
  by (auto simp: column_dtype_def split: list.splits)

lemma filter_zip_keys:
  "length xs = length ys \<Longrightarrow>
   length (filter (\<lambda>(k, d). k = c) (zip xs ys)) = length (filter (\<lambda>k. k = c) xs)"
  by (induction xs ys rule: list_induct2) auto

lemma single_occurrences_distinct:
  "(\<And>c. c \<in> set cs \<Longrightarrow> length (filter (\<lambda>k. k = c) cs) = 1) \<Longrightarrow> distinct cs"
proof (induction cs)
  case Nil
  show ?case by simp
next
  case (Cons x xs)
  from Cons.prems [of x] have "filter (\<lambda>k. k = x) xs = []" by simp
  then have x: "x \<notin> set xs" by (auto simp: filter_empty_conv)
  have "length (filter (\<lambda>k. k = c) xs) = 1" if "c \<in> set xs" for c
  proof -
    from that x have "x \<noteq> c" by auto
    with Cons.prems [of c] that show ?thesis by simp
  qed
  with Cons.IH have "distinct xs" by blast
  with x show ?case by simp
qed

lemma columns_loop_distinct:
  assumes "length (df_dtypes df) = length (df_columns df)"
    and "columns_loop df (df_columns df) = Inr cds"
  shows "distinct (df_columns df)"
proof (rule single_occurrences_distinct)
  fix c assume "c \<in> set (df_columns df)"
  with columns_loop_each [OF assms(2)] obtain dt where "column_dtype df c = Inr dt" by blast
  from column_dtype_single [OF this] filter_zip_keys [OF assms(1) [symmetric], of c]
  show "length (filter (\<lambda>k. k = c) (df_columns df)) = 1" by simp
qed

lemma prepare_table_data_returns_only_if:
  assumes "dataframe self < length h"
    and "wf_frame (h ! dataframe self)"
    and "fst (prepare_table_data self h) = Inr td"
  shows "distinct (df_columns (h ! dataframe self)) \<and>
     fill_accepted (h ! dataframe self) (PyStr ''N/A'')"
proof -
  let ?df = "h ! dataframe self"
  let ?F = "fill_frame ?df (PyStr ''N/A'')"
  have acc: "fill_accepted ?df (PyStr ''N/A'')"
  proof (rule ccontr)
    assume "\<not> fill_accepted ?df (PyStr ''N/A'')"
    with assms(1) have "\<exists>e. fst (prepare_table_data self h) = Inl e"
      by (simp add: prepare_table_data_def df_copy_def df_fillna_def fillna_def nth_append)
    with assms(3) show False by auto
  qed
  have "\<exists>cds. columns_loop ?F (df_columns ?F) = Inr cds"
  proof (cases "columns_loop ?F (df_columns ?F)")
    case (Inl e)
    with assms(1) acc have "fst (prepare_table_data self h) = Inl e"
      by (simp add: prepare_table_data_def df_copy_def df_fillna_def fillna_def nth_append Let_def)
    with assms(3) show ?thesis by simp
  next
    case (Inr cds)
    then show ?thesis by blast
  qed
  then obtain cds where "columns_loop ?F (df_columns ?F) = Inr cds" by blast
  moreover from assms(2) have "length (df_dtypes ?F) = length (df_columns ?F)"
    by (simp add: fill_frame_fields wf_frame_def)
  ultimately have "distinct (df_columns ?F)" by (rule columns_loop_distinct [rotated])
  with acc show ?thesis by (simp add: fill_frame_fields)
qed

section \<open>Properties of the conversion\<close>

text \<open>
  C1, as amended. Take a frame with \<open>N\<close> rows and \<open>M\<close> columns none of whose column labels
  is \<^verbatim>\<open>_index\<close>. Whenever \<^verbatim>\<open>_prepare_table_data\<close> returns, the data list has \<open>N\<close>
  records, the record at position \<open>i\<close> made from row \<open>i\<close>; its keys are \<^verbatim>\<open>_index\<close> and then
  the \<open>M\<close> column labels in the frame's order (\<open>M + 1\<close> keys), \<^verbatim>\<open>_index\<close> holds the row's
  label as a string, and each column's label holds the converted cell of that row and
  column. It returns when the column labels are pairwise distinct and \<^verbatim>\<open>fillna\<close> accepts
  the string \<^verbatim>\<open>N/A\<close> for every column.
\<close>

theorem display_records_of_rows:
  assumes "dataframe self < length h"
    and "wf_frame (h ! dataframe self)"
    and "LStr ''_index'' \<notin> set (df_columns (h ! dataframe self))"
  shows "(distinct (df_columns (h ! dataframe self)) \<and>
      fill_accepted (h ! dataframe self) (PyStr ''N/A'') \<longrightarrow>
        (\<exists>td. fst (prepare_table_data self h) = Inr td)) \<and>
     (\<forall>td. fst (prepare_table_data self h) = Inr td \<longrightarrow>
        length (data td) = length (df_index (h ! dataframe self)) \<and>
        (\<forall>i < length (df_index (h ! dataframe self)).
           map fst (data td ! i) = LStr ''_index'' # df_columns (h ! dataframe self) \<and>
           length (data td ! i) = length (df_columns (h ! dataframe self)) + 1 \<and>
           map_of (data td ! i) (LStr ''_index'') =
             Some (PyStr (label_str (df_index (h ! dataframe self) ! i))) \<and>
           (\<forall>j < length (df_columns (h ! dataframe self)).
              map_of (data td ! i) (df_columns (h ! dataframe self) ! j) =
                Some (coerce_value (fill_cell (PyStr ''N/A'') (df_cells (h ! dataframe self) ! i ! j))))))"
proof -
  let ?df = "h ! dataframe self"
  have returns: "\<exists>td. fst (prepare_table_data self h) = Inr td"
    if "distinct (df_columns ?df)" "fill_accepted ?df (PyStr ''N/A'')"
    using prepare_table_data_rows [OF assms(1,2) that] by auto
  have records: "length (data td) = length (df_index ?df) \<and>
        (\<forall>i < length (df_index ?df).
           map fst (data td ! i) = LStr ''_index'' # df_columns ?df \<and>
           length (data td ! i) = length (df_columns ?df) + 1 \<and>
           map_of (data td ! i) (LStr ''_index'') = Some (PyStr (label_str (df_index ?df ! i))) \<and>
           (\<forall>j < length (df_columns ?df).
              map_of (data td ! i) (df_columns ?df ! j) =
                Some (coerce_value (fill_cell (PyStr ''N/A'') (df_cells ?df ! i ! j)))))"
    if ret: "fst (prepare_table_data self h) = Inr td" for td
  proof -
    from prepare_table_data_returns_only_if [OF assms(1,2) ret]
    have dist: "distinct (df_columns ?df)" and acc: "fill_accepted ?df (PyStr ''N/A'')"
      by simp_all
    from prepare_table_data_rows [OF assms(1,2) dist acc] ret have
      n: "length (data td) = length (df_index ?df)"
      and rows: "\<forall>i < length (df_index ?df).
          data td ! i =
            foldl (\<lambda>rd c. dict_set rd c (coerce_value (the (map_of
                     (zip (df_columns ?df) (map (fill_cell (PyStr ''N/A'')) (df_cells ?df ! i))) c))))
              [(LStr ''_index'', PyStr (label_str (df_index ?df ! i)))]
              (df_columns ?df)"
      by auto
    have "map fst (data td ! i) = LStr ''_index'' # df_columns ?df \<and>
          length (data td ! i) = length (df_columns ?df) + 1 \<and>
          map_of (data td ! i) (LStr ''_index'') = Some (PyStr (label_str (df_index ?df ! i))) \<and>
          (\<forall>j < length (df_columns ?df).
             map_of (data td ! i) (df_columns ?df ! j) =
               Some (coerce_value (fill_cell (PyStr ''N/A'') (df_cells ?df ! i ! j))))"
      if i: "i < length (df_index ?df)" for i
    proof -
      from rows i have row: "data td ! i =
            foldl (\<lambda>rd c. dict_set rd c (coerce_value (the (map_of
                     (zip (df_columns ?df) (map (fill_cell (PyStr ''N/A'')) (df_cells ?df ! i))) c))))
              [(LStr ''_index'', PyStr (label_str (df_index ?df ! i)))]
              (df_columns ?df)" by simp
      from assms(2) i have len: "length (df_cells ?df ! i) = length (df_columns ?df)"
        by (simp add: wf_frame_def list_all_length)
      have keys: "map fst (data td ! i) = LStr ''_index'' # df_columns ?df"
        unfolding row by (rule row_record_keys [OF dist assms(3)])
      then have "length (map fst (data td ! i)) = length (df_columns ?df) + 1" by simp
      then have size: "length (data td ! i) = length (df_columns ?df) + 1" by simp
      have idx: "map_of (data td ! i) (LStr ''_index'') = Some (PyStr (label_str (df_index ?df ! i)))"
        unfolding row by (rule row_record_index [OF dist assms(3)])
      have "map_of (data td ! i) (df_columns ?df ! j) =
              Some (coerce_value (fill_cell (PyStr ''N/A'') (df_cells ?df ! i ! j)))"
        if j: "j < length (df_columns ?df)" for j
        unfolding row
        using row_record_lookup [OF dist _ j, of "map (fill_cell (PyStr ''N/A'')) (df_cells ?df ! i)"] len j
        by simp
      with keys size idx show ?thesis by blast
    qed
    with n show ?thesis by blast
  qed
  from returns records show ?thesis by blast
qed

theorem display_records_of_rows_witness:
  "dataframe (viewer_of 0) < length [people] \<and>
   wf_frame ([people] ! dataframe (viewer_of 0)) \<and>
   LStr ''_index'' \<notin> set (df_columns ([people] ! dataframe (viewer_of 0))) \<and>
   distinct (df_columns ([people] ! dataframe (viewer_of 0))) \<and>
   fill_accepted ([people] ! dataframe (viewer_of 0)) (PyStr ''N/A'') \<and>
   (\<exists>td. fst (prepare_table_data (viewer_of 0) [people]) = Inr td \<and>
     length (data td) = length (df_index ([people] ! dataframe (viewer_of 0))) \<and>
     (\<forall>i < length (df_index ([people] ! dataframe (viewer_of 0))).
        map fst (data td ! i) = LStr ''_index'' # df_columns ([people] ! dataframe (viewer_of 0)) \<and>
        length (data td ! i) = length (df_columns ([people] ! dataframe (viewer_of 0))) + 1 \<and>
        map_of (data td ! i) (LStr ''_index'') =
          Some (PyStr (label_str (df_index ([people] ! dataframe (viewer_of 0)) ! i))) \<and>
        (\<forall>j < length (df_columns ([people] ! dataframe (viewer_of 0))).
           map_of (data td ! i) (df_columns ([people] ! dataframe (viewer_of 0)) ! j) =
             Some (coerce_value (fill_cell (PyStr ''N/A'')
               (df_cells ([people] ! dataframe (viewer_of 0)) ! i ! j))))))"
proof -
  have a: "dataframe (viewer_of 0) < length [people]" by (simp add: viewer_of_def)
  have b: "wf_frame ([people] ! dataframe (viewer_of 0))"
    and c: "LStr ''_index'' \<notin> set (df_columns ([people] ! dataframe (viewer_of 0)))"
    and d: "distinct (df_columns ([people] ! dataframe (viewer_of 0)))"
    and e: "fill_accepted ([people] ! dataframe (viewer_of 0)) (PyStr ''N/A'')"
    by (simp_all add: viewer_of_def sample_people)
  note t = display_records_of_rows [OF a b c]
  from t d e obtain td where td: "fst (prepare_table_data (viewer_of 0) [people]) = Inr td"
    by blast
  from t have "\<forall>td. fst (prepare_table_data (viewer_of 0) [people]) = Inr td \<longrightarrow>
        length (data td) = length (df_index ([people] ! dataframe (viewer_of 0))) \<and>
        (\<forall>i < length (df_index ([people] ! dataframe (viewer_of 0))).
           map fst (data td ! i) = LStr ''_index'' # df_columns ([people] ! dataframe (viewer_of 0)) \<and>
           length (data td ! i) = length (df_columns ([people] ! dataframe (viewer_of 0))) + 1 \<and>
           map_of (data td ! i) (LStr ''_index'') =
             Some (PyStr (label_str (df_index ([people] ! dataframe (viewer_of 0)) ! i))) \<and>
           (\<forall>j < length (df_columns ([people] ! dataframe (viewer_of 0))).
              map_of (data td ! i) (df_columns ([people] ! dataframe (viewer_of 0)) ! j) =
                Some (coerce_value (fill_cell (PyStr ''N/A'')
                  (df_cells ([people] ! dataframe (viewer_of 0)) ! i ! j)))))"
    by (rule conjunct2)
  note p = this [rule_format, OF td]
  from td p [THEN conjunct1] p [THEN conjunct2] a b c d e show ?thesis
    by (intro conjI exI [of _ td])
qed

theorem display_records_counterexample:
  "fst (prepare_table_data (viewer_of 0) [index_named]) =
     Inr \<lparr>columns =
            [\<lparr>key = LStr ''_index'', title_of = LStr ''_index'', dataType = ''object''\<rparr>,
             \<lparr>key = LStr ''v'', title_of = LStr ''v'', dataType = ''object''\<rparr>],
          data = [[(LStr ''_index'', PyStr ''x''), (LStr ''v'', PyStr ''y'')]],
          totalRows = 1, shape = (1, 2)\<rparr>"
  by (simp add: prepare_table_data_def df_copy_def df_fillna_def viewer_of_def index_named_def
      fillna_def fill_frame_def fill_dtype_def fill_accepted_def column_has_na_def column_dtype_def iterrows_def series_getitem_def
      coerce_item_def coerce_value_def fill_cell_def Let_def enumerate_eq_zip)

text \<open>
  C3. Every cell whose value is missing is meant to be the string \<^verbatim>\<open>N/A\<close> in the display
  record, whatever its column: line 56 fills the frame and line 69 tests each value again.
  For a categorical column that has a missing value and not the category \<^verbatim>\<open>N/A\<close>, the
  call of \<^verbatim>\<open>fillna\<close> in line 56 raises \<^verbatim>\<open>TypeError\<close>, so \<^verbatim>\<open>_prepare_table_data\<close> raises
  and there is no record: here on the frame with the columns \<^verbatim>\<open>Name\<close> and \<^verbatim>\<open>Grade\<close>, the
  second categorical with the categories \<^verbatim>\<open>Good\<close>, \<^verbatim>\<open>Better\<close>, \<^verbatim>\<open>Best\<close>, and the rows
  \<^verbatim>\<open>(Alice, Good)\<close> and \<^verbatim>\<open>(Bob, NaN)\<close>.
\<close>

theorem categorical_missing_value_raises:
  "isna (df_cells graded ! 1 ! 1) \<and>
   fst (prepare_table_data (viewer_of 0) [graded]) =
     Inl (TypeError ''Cannot setitem on a Categorical with a new category (N/A), set the categories first'')"
  by (simp add: prepare_table_data_def df_copy_def df_fillna_def fillna_def fill_accepted_def
      viewer_of_def graded_def)

text \<open>
  On the frames for which \<^verbatim>\<open>fillna\<close> accepts the string, with unique column labels,
  every cell whose value is missing (\<^verbatim>\<open>None\<close>, NaN, \<^verbatim>\<open>NaT\<close>, \<^verbatim>\<open>NA\<close>) has the string
  \<^verbatim>\<open>N/A\<close> under its column's label in the display record of its row.
\<close>

theorem missing_cells_become_NA:
  assumes "dataframe self < length h"
    and "wf_frame (h ! dataframe self)"
    and "distinct (df_columns (h ! dataframe self))"
    and "i < length (df_index (h ! dataframe self))"
    and "j < length (df_columns (h ! dataframe self))"
    and "isna (df_cells (h ! dataframe self) ! i ! j)"
    and "fill_accepted (h ! dataframe self) (PyStr ''N/A'')"
  shows "\<exists>td. fst (prepare_table_data self h) = Inr td \<and> i < length (data td) \<and>
     map_of (data td ! i) (df_columns (h ! dataframe self) ! j) = Some (PyStr ''N/A'')"
proof -
  from prepare_table_data_cell [OF assms(1-5) assms(7)] obtain td where
    td: "fst (prepare_table_data self h) = Inr td" "length (data td) = length (df_index (h ! dataframe self))"
    and cell: "map_of (data td ! i) (df_columns (h ! dataframe self) ! j) =
       Some (coerce_value (fill_cell (PyStr ''N/A'') (df_cells (h ! dataframe self) ! i ! j)))"
    by blast
  from assms(6) have "coerce_value (fill_cell (PyStr ''N/A'') (df_cells (h ! dataframe self) ! i ! j)) = PyStr ''N/A''"
    by (simp add: fill_cell_def coerce_value_def)
  with td cell assms(4) show ?thesis by auto
qed

theorem missing_cells_become_NA_witness:
  "dataframe (viewer_of 0) < length [people] \<and>
   wf_frame ([people] ! dataframe (viewer_of 0)) \<and>
   distinct (df_columns ([people] ! dataframe (viewer_of 0))) \<and>
   0 < length (df_index ([people] ! dataframe (viewer_of 0))) \<and>
   3 < length (df_columns ([people] ! dataframe (viewer_of 0))) \<and>
   isna (df_cells ([people] ! dataframe (viewer_of 0)) ! 0 ! 3) \<and>
   fill_accepted ([people] ! dataframe (viewer_of 0)) (PyStr ''N/A'') \<and>
   (\<exists>td. fst (prepare_table_data (viewer_of 0) [people]) = Inr td \<and> 0 < length (data td) \<and>
      map_of (data td ! 0) (df_columns ([people] ! dataframe (viewer_of 0)) ! 3) = Some (PyStr ''N/A''))"
proof -
  have a: "dataframe (viewer_of 0) < length [people]" by (simp add: viewer_of_def)
  have b: "wf_frame ([people] ! dataframe (viewer_of 0))"
    and c: "distinct (df_columns ([people] ! dataframe (viewer_of 0)))"
    and d: "0 < length (df_index ([people] ! dataframe (viewer_of 0)))"
    and e: "3 < length (df_columns ([people] ! dataframe (viewer_of 0)))"
    and g: "fill_accepted ([people] ! dataframe (viewer_of 0)) (PyStr ''N/A'')"
    by (simp_all add: viewer_of_def sample_people)
  have f: "isna (df_cells ([people] ! dataframe (viewer_of 0)) ! 0 ! 3)"
    by (simp add: viewer_of_def people_def)
  from missing_cells_become_NA [OF a b c d e f g] a b c d e f g show ?thesis by blast
qed

text \<open>
  C4, as amended. In a frame with unique column labels that \<^verbatim>\<open>fillna\<close> accepts, a cell
  that is not missing and is an instance of the built-in \<^verbatim>\<open>int\<close> or \<^verbatim>\<open>float\<close> (a Python
  integer, float or boolean, or a \<^verbatim>\<open>numpy.float64\<close>) is in the display record as it is,
  and a cell that is not missing, is no number, no Python boolean and no timestamp (a
  string, a \<^verbatim>\<open>numpy.bool_\<close>, any other object) is in the display record as its text.
  Nothing is said here of the numpy integers, which are numbers and no instances of
  \<^verbatim>\<open>int\<close>.
\<close>

theorem builtin_numbers_pass_others_become_text:
  assumes "dataframe self < length h"
    and "wf_frame (h ! dataframe self)"
    and "distinct (df_columns (h ! dataframe self))"
    and "i < length (df_index (h ! dataframe self))"
    and "j < length (df_columns (h ! dataframe self))"
    and "\<not> isna (df_cells (h ! dataframe self) ! i ! j)"
    and "fill_accepted (h ! dataframe self) (PyStr ''N/A'')"
  shows "\<exists>td. fst (prepare_table_data self h) = Inr td \<and> i < length (data td) \<and>
     (isinstance_int_float (df_cells (h ! dataframe self) ! i ! j) \<longrightarrow>
        map_of (data td ! i) (df_columns (h ! dataframe self) ! j) =
          Some (df_cells (h ! dataframe self) ! i ! j)) \<and>
     (\<not> isinstance_int_float (df_cells (h ! dataframe self) ! i ! j) \<and>
      \<not> is_NpInt (df_cells (h ! dataframe self) ! i ! j) \<and>
      \<not> isinstance_datetime (df_cells (h ! dataframe self) ! i ! j) \<longrightarrow>
        map_of (data td ! i) (df_columns (h ! dataframe self) ! j) =
          Some (PyStr (py_str (df_cells (h ! dataframe self) ! i ! j))))"
proof -
  let ?v = "df_cells (h ! dataframe self) ! i ! j"
  from prepare_table_data_cell [OF assms(1-5) assms(7)] obtain td where
    td: "fst (prepare_table_data self h) = Inr td"
      "length (data td) = length (df_index (h ! dataframe self))"
    and cell: "map_of (data td ! i) (df_columns (h ! dataframe self) ! j) =
       Some (coerce_value (fill_cell (PyStr ''N/A'') ?v))"
    by blast
  from assms(6) have v: "coerce_value (fill_cell (PyStr ''N/A'') ?v) =
      (if isinstance_int_float ?v then ?v
       else if isinstance_datetime ?v then PyStr (strftime (the_datetime ?v))
       else PyStr (py_str ?v))"
    by (simp add: fill_cell_def coerce_value_def)
  from cell v have "isinstance_int_float ?v \<longrightarrow>
      map_of (data td ! i) (df_columns (h ! dataframe self) ! j) = Some ?v"
    and "\<not> isinstance_int_float ?v \<and> \<not> is_NpInt ?v \<and> \<not> isinstance_datetime ?v \<longrightarrow>
      map_of (data td ! i) (df_columns (h ! dataframe self) ! j) = Some (PyStr (py_str ?v))"
    by simp_all
  with td assms(4) show ?thesis by (intro exI [of _ td]) simp
qed

theorem builtin_numbers_pass_others_become_text_witness:
  "dataframe (viewer_of 0) < length [people] \<and>
   wf_frame ([people] ! dataframe (viewer_of 0)) \<and>
   distinct (df_columns ([people] ! dataframe (viewer_of 0))) \<and>
   0 < length (df_index ([people] ! dataframe (viewer_of 0))) \<and>
   1 < length (df_columns ([people] ! dataframe (viewer_of 0))) \<and>
   0 < length (df_columns ([people] ! dataframe (viewer_of 0))) \<and>
   fill_accepted ([people] ! dataframe (viewer_of 0)) (PyStr ''N/A'') \<and>
   \<not> isna (df_cells ([people] ! dataframe (viewer_of 0)) ! 0 ! 1) \<and>
   isinstance_int_float (df_cells ([people] ! dataframe (viewer_of 0)) ! 0 ! 1) \<and>
   (\<exists>td. fst (prepare_table_data (viewer_of 0) [people]) = Inr td \<and> 0 < length (data td) \<and>
      map_of (data td ! 0) (df_columns ([people] ! dataframe (viewer_of 0)) ! 1) =
        Some (df_cells ([people] ! dataframe (viewer_of 0)) ! 0 ! 1)) \<and>
   \<not> isna (df_cells ([people] ! dataframe (viewer_of 0)) ! 0 ! 0) \<and>
   \<not> isinstance_int_float (df_cells ([people] ! dataframe (viewer_of 0)) ! 0 ! 0) \<and>
   \<not> is_NpInt (df_cells ([people] ! dataframe (viewer_of 0)) ! 0 ! 0) \<and>
   \<not> isinstance_datetime (df_cells ([people] ! dataframe (viewer_of 0)) ! 0 ! 0) \<and>
   (\<exists>td. fst (prepare_table_data (viewer_of 0) [people]) = Inr td \<and> 0 < length (data td) \<and>
      map_of (data td ! 0) (df_columns ([people] ! dataframe (viewer_of 0)) ! 0) =
        Some (PyStr (py_str (df_cells ([people] ! dataframe (viewer_of 0)) ! 0 ! 0))))"
proof -
  have a: "dataframe (viewer_of 0) < length [people]" by (simp add: viewer_of_def)
  have b: "wf_frame ([people] ! dataframe (viewer_of 0))"
    and c: "distinct (df_columns ([people] ! dataframe (viewer_of 0)))"
    and d: "0 < length (df_index ([people] ! dataframe (viewer_of 0)))"
    and e: "1 < length (df_columns ([people] ! dataframe (viewer_of 0)))"
    and e0: "0 < length (df_columns ([people] ! dataframe (viewer_of 0)))"
    and acc: "fill_accepted ([people] ! dataframe (viewer_of 0)) (PyStr ''N/A'')"
    by (simp_all add: viewer_of_def sample_people)
  have f: "\<not> isna (df_cells ([people] ! dataframe (viewer_of 0)) ! 0 ! 1)"
    and g: "isinstance_int_float (df_cells ([people] ! dataframe (viewer_of 0)) ! 0 ! 1)"
    and f0: "\<not> isna (df_cells ([people] ! dataframe (viewer_of 0)) ! 0 ! 0)"
    and g0: "\<not> isinstance_int_float (df_cells ([people] ! dataframe (viewer_of 0)) ! 0 ! 0)"
    and h0: "\<not> is_NpInt (df_cells ([people] ! dataframe (viewer_of 0)) ! 0 ! 0)"
    and k0: "\<not> isinstance_datetime (df_cells ([people] ! dataframe (viewer_of 0)) ! 0 ! 0)"
    by (simp_all add: viewer_of_def people_def)
  from builtin_numbers_pass_others_become_text [OF a b c d e f acc] g
  have number: "\<exists>td. fst (prepare_table_data (viewer_of 0) [people]) = Inr td \<and> 0 < length (data td) \<and>
      map_of (data td ! 0) (df_columns ([people] ! dataframe (viewer_of 0)) ! 1) =
        Some (df_cells ([people] ! dataframe (viewer_of 0)) ! 0 ! 1)"
    by auto
  from builtin_numbers_pass_others_become_text [OF a b c d e0 f0 acc] g0 h0 k0
  have string: "\<exists>td. fst (prepare_table_data (viewer_of 0) [people]) = Inr td \<and> 0 < length (data td) \<and>
      map_of (data td ! 0) (df_columns ([people] ! dataframe (viewer_of 0)) ! 0) =
        Some (PyStr (py_str (df_cells ([people] ! dataframe (viewer_of 0)) ! 0 ! 0)))"
    by auto
  from a b c d e e0 acc f g number f0 g0 h0 k0 string show ?thesis by (intro conjI)
qed

theorem numeric_text_counterexample:
  "fst (prepare_table_data (viewer_of 0) [counts]) =
     Inr \<lparr>columns = [\<lparr>key = LStr ''a'', title_of = LStr ''a'', dataType = ''int64''\<rparr>],
          data = [[(LStr ''_index'', PyStr ''0''), (LStr ''a'', PyStr ''1'')],
                  [(LStr ''_index'', PyStr ''1''), (LStr ''a'', PyStr ''2'')]],
          totalRows = 2, shape = (2, 1)\<rparr> \<and>
   map_of (data (projr (fst (prepare_table_data (viewer_of 0) [people]))) ! 0) (LStr ''Active'') =
     Some (PyBool True)"
  by (simp add: prepare_table_data_def df_copy_def df_fillna_def viewer_of_def counts_def people_def
      fillna_def fill_frame_def fill_dtype_def fill_accepted_def column_has_na_def column_dtype_def iterrows_def series_getitem_def
      coerce_item_def coerce_value_def fill_cell_def Let_def enumerate_eq_zip
      str_int_def str_nat.simps digit_char_def)









section \<open>Properties of the file loader\<close>

text \<open>
  C6. For a path whose extension, in lower case, is none of \<^verbatim>\<open>.csv\<close>, \<^verbatim>\<open>.xlsx\<close>,
  \<^verbatim>\<open>.xls\<close>, \<^verbatim>\<open>.json\<close>, \<^verbatim>\<open>.parquet\<close>, \<^verbatim>\<open>.tsv\<close>, \<^verbatim>\<open>.tab\<close>, \<^verbatim>\<open>.pkl\<close> and
  \<^verbatim>\<open>.pickle\<close>, \<^verbatim>\<open>load_dataframe_from_file\<close> calls no reader, leaves the state as it
  is and raises the error of the unsupported format: an \<^verbatim>\<open>Exception\<close> whose message is
  \<^verbatim>\<open>Error loading file '<path>': Unsupported file format: <extension>\<close> (the
  \<^verbatim>\<open>ValueError\<close> of line 44, wrapped by the \<^verbatim>\<open>except\<close> clause of line 45). It
  returns no frame.
\<close>

theorem unsupported_extension_fails:
  assumes "lower (suffix (Path filepath)) \<notin>
     {''.csv'', ''.xlsx'', ''.xls'', ''.json'', ''.parquet'', ''.tsv'', ''.tab'', ''.pkl'', ''.pickle''}"
  shows "load_dataframe_from_file env filepath kw w =
     (Inl (Exception (''Error loading file '' @ [CHR 0x27] @ path_str (Path filepath) @ [CHR 0x27] @
                      '': Unsupported file format: '' @ lower (suffix (Path filepath)))), w)"
  using assms by (simp add: load_dataframe_from_file_def load_body_def Let_def)

theorem unsupported_extension_fails_witness:
  "lower (suffix (Path ''data.xyz'')) \<notin>
     {''.csv'', ''.xlsx'', ''.xls'', ''.json'', ''.parquet'', ''.tsv'', ''.tab'', ''.pkl'', ''.pickle''} \<and>
   load_dataframe_from_file basic_env ''data.xyz'' [] blank =
     (Inl (Exception (''Error loading file '' @ [CHR 0x27] @ ''data.xyz'' @ [CHR 0x27] @
        '': Unsupported file format: .xyz'')), blank)"
proof -
  have ext: "lower (suffix (Path ''data.xyz'')) = ''.xyz''"
    by (simp add: lower_def lower_char_def suffix_def Path_def path_name_def rfind_def)
  have str: "path_str (Path ''data.xyz'') = ''data.xyz''"
    by (simp add: path_str_def Path_def)
  have a: "lower (suffix (Path ''data.xyz'')) \<notin>
     {''.csv'', ''.xlsx'', ''.xls'', ''.json'', ''.parquet'', ''.tsv'', ''.tab'', ''.pkl'', ''.pickle''}"
    unfolding ext by simp
  from unsupported_extension_fails [OF a, of basic_env "[]" blank] a show ?thesis
    unfolding ext str by simp
qed

text \<open>
  C7. Whatever the path, when the reader that \<^verbatim>\<open>load_dataframe_from_file\<close> calls for its
  extension raises an exception (an instance of \<^verbatim>\<open>Exception\<close>), the function raises
  an \<^verbatim>\<open>Exception\<close> whose message is \<^verbatim>\<open>Error loading file '<path>': \<close> followed by
  the text of the reader's exception, the path being the \<^verbatim>\<open>Path\<close> object as printed.
\<close>

theorem reader_failure_is_wrapped:
  assumes "is_Exception e"
    and "(lower (suffix (Path filepath)) = ''.csv'' \<and>
            read_csv env (Path filepath) kw w = (Inl e, w')) \<or>
         (lower (suffix (Path filepath)) \<in> {''.xlsx'', ''.xls''} \<and>
            read_excel env (Path filepath) kw w = (Inl e, w')) \<or>
         (lower (suffix (Path filepath)) = ''.json'' \<and>
            read_json env (Path filepath) kw w = (Inl e, w')) \<or>
         (lower (suffix (Path filepath)) = ''.parquet'' \<and>
            read_parquet env (Path filepath) kw w = (Inl e, w')) \<or>
         (lower (suffix (Path filepath)) \<in> {''.tsv'', ''.tab''} \<and>
            read_csv env (Path filepath) ((''sep'', PyStr [CHR 0x09]) # kw) w = (Inl e, w')) \<or>
         (lower (suffix (Path filepath)) \<in> {''.pkl'', ''.pickle''} \<and>
            read_pickle env (Path filepath) kw w = (Inl e, w'))"
  shows "load_dataframe_from_file env filepath kw w =
     (Inl (Exception (''Error loading file '' @ [CHR 0x27] @ path_str (Path filepath) @ [CHR 0x27] @
                      '': '' @ exn_str e)), w')"
  using assms(2)
proof (elim disjE conjE)
  assume "lower (suffix (Path filepath)) = ''.csv''"
    and "read_csv env (Path filepath) kw w = (Inl e, w')"
  with assms(1) show ?thesis
    by (simp add: load_dataframe_from_file_def load_body_def Let_def)
next
  assume "lower (suffix (Path filepath)) \<in> {''.xlsx'', ''.xls''}"
    and "read_excel env (Path filepath) kw w = (Inl e, w')"
  with assms(1) show ?thesis
    by (auto simp add: load_dataframe_from_file_def load_body_def Let_def)
next
  assume "lower (suffix (Path filepath)) = ''.json''"
    and "read_json env (Path filepath) kw w = (Inl e, w')"
  with assms(1) show ?thesis
    by (simp add: load_dataframe_from_file_def load_body_def Let_def)
next
  assume "lower (suffix (Path filepath)) = ''.parquet''"
    and "read_parquet env (Path filepath) kw w = (Inl e, w')"
  with assms(1) show ?thesis
    by (simp add: load_dataframe_from_file_def load_body_def Let_def)
next
  assume "lower (suffix (Path filepath)) \<in> {''.tsv'', ''.tab''}"
    and "read_csv env (Path filepath) ((''sep'', PyStr [CHR 0x09]) # kw) w = (Inl e, w')"
  with assms(1) show ?thesis
    by (auto simp add: load_dataframe_from_file_def load_body_def Let_def)
next
  assume "lower (suffix (Path filepath)) \<in> {''.pkl'', ''.pickle''}"
    and "read_pickle env (Path filepath) kw w = (Inl e, w')"
  with assms(1) show ?thesis
    by (auto simp add: load_dataframe_from_file_def load_body_def Let_def)
qed

theorem reader_failure_is_wrapped_witness:
  "is_Exception (OtherError ''FileNotFoundError'' ''No such file or directory'') \<and>
   lower (suffix (Path ''reports//Q1.CSV'')) = ''.csv'' \<and>
   read_csv basic_env (Path ''reports//Q1.CSV'') [] blank =
     (Inl (OtherError ''FileNotFoundError'' ''No such file or directory''), blank) \<and>
   load_dataframe_from_file basic_env ''reports//Q1.CSV'' [] blank =
     (Inl (Exception (''Error loading file '' @ [CHR 0x27] @ ''reports/Q1.CSV'' @ [CHR 0x27] @
        '': No such file or directory'')), blank)"
proof -
  have a: "is_Exception (OtherError ''FileNotFoundError'' ''No such file or directory'')" by simp
  have ext: "lower (suffix (Path ''reports//Q1.CSV'')) = ''.csv''"
    by (simp add: lower_def lower_char_def suffix_def Path_def path_name_def rfind_def)
  have rd: "read_csv basic_env (Path ''reports//Q1.CSV'') [] blank =
     (Inl (OtherError ''FileNotFoundError'' ''No such file or directory''), blank)"
    by (simp add: basic_env_def no_file_def)
  have str: "path_str (Path ''reports//Q1.CSV'') = ''reports/Q1.CSV''"
    by (simp add: path_str_def Path_def)
  from ext rd have b: "(lower (suffix (Path ''reports//Q1.CSV'')) = ''.csv'' \<and>
            read_csv basic_env (Path ''reports//Q1.CSV'') [] blank =
              (Inl (OtherError ''FileNotFoundError'' ''No such file or directory''), blank)) \<or>
         (lower (suffix (Path ''reports//Q1.CSV'')) \<in> {''.xlsx'', ''.xls''} \<and>
            read_excel basic_env (Path ''reports//Q1.CSV'') [] blank =
              (Inl (OtherError ''FileNotFoundError'' ''No such file or directory''), blank)) \<or>
         (lower (suffix (Path ''reports//Q1.CSV'')) = ''.json'' \<and>
            read_json basic_env (Path ''reports//Q1.CSV'') [] blank =
              (Inl (OtherError ''FileNotFoundError'' ''No such file or directory''), blank)) \<or>
         (lower (suffix (Path ''reports//Q1.CSV'')) = ''.parquet'' \<and>
            read_parquet basic_env (Path ''reports//Q1.CSV'') [] blank =
              (Inl (OtherError ''FileNotFoundError'' ''No such file or directory''), blank)) \<or>
         (lower (suffix (Path ''reports//Q1.CSV'')) \<in> {''.tsv'', ''.tab''} \<and>
            read_csv basic_env (Path ''reports//Q1.CSV'') ((''sep'', PyStr [CHR 0x09]) # []) blank =
              (Inl (OtherError ''FileNotFoundError'' ''No such file or directory''), blank)) \<or>
         (lower (suffix (Path ''reports//Q1.CSV'')) \<in> {''.pkl'', ''.pickle''} \<and>
            read_pickle basic_env (Path ''reports//Q1.CSV'') [] blank =
              (Inl (OtherError ''FileNotFoundError'' ''No such file or directory''), blank))"
    by blast
  from reader_failure_is_wrapped [OF a b] a ext rd show ?thesis
    unfolding str by simp
qed

section \<open>Properties of the page and of the preview\<close>

text \<open>
  C9. Constructing a \<^verbatim>\<open>PandasTablePage\<close> from an object that is not a frame raises
  \<^verbatim>\<open>ValueError("Input must be a pandas DataFrame")\<close> and gives no page, whatever the
  other arguments and the environment. From a frame it gives the page that holds the
  frame's reference, the title and the mode: without the cacao components with no plugin,
  and with them with the plugin that the framework's constructor returns for the arguments
  of lines 39 to 43.
\<close>

theorem page_needs_a_frame:
  "PandasTablePage_init env (NotDataFrame v) ttl md =
     Inl (ValueError ''Input must be a pandas DataFrame'') \<and>
   (\<not> CACAO_COMPONENTS_AVAILABLE env \<longrightarrow>
      PandasTablePage_init env (DataFrame r) ttl md =
        Inr \<lparr>dataframe = r, title = ttl, mode = md, plugin = None\<rparr>) \<and>
   (CACAO_COMPONENTS_AVAILABLE env \<and> PandasTablePlugin env (md = ''advanced'') 100 1 = Inr p \<longrightarrow>
      PandasTablePage_init env (DataFrame r) ttl md =
        Inr \<lparr>dataframe = r, title = ttl, mode = md, plugin = Some p\<rparr>)"
  by (simp add: PandasTablePage_init_def)

theorem page_needs_a_frame_witness:
  "PandasTablePage_init basic_env (NotDataFrame (PyStr ''not a frame'')) None ''advanced'' =
     Inl (ValueError ''Input must be a pandas DataFrame'') \<and>
   \<not> CACAO_COMPONENTS_AVAILABLE basic_env \<and>
   PandasTablePage_init basic_env (DataFrame 0) None ''advanced'' =
     Inr \<lparr>dataframe = 0, title = None, mode = ''advanced'', plugin = None\<rparr> \<and>
   CACAO_COMPONENTS_AVAILABLE (basic_env\<lparr>CACAO_COMPONENTS_AVAILABLE := True\<rparr>) \<and>
   PandasTablePlugin (basic_env\<lparr>CACAO_COMPONENTS_AVAILABLE := True\<rparr>) (''simple'' = ''advanced'') 100 1 =
     Inr \<lparr>enhanced_mode = False, row_threshold = 100, memory_threshold_mb = 1\<rparr> \<and>
   PandasTablePage_init (basic_env\<lparr>CACAO_COMPONENTS_AVAILABLE := True\<rparr>) (DataFrame 0)
       (Some ''Sales'') ''simple'' =
     Inr \<lparr>dataframe = 0, title = Some ''Sales'', mode = ''simple'',
          plugin = Some \<lparr>enhanced_mode = False, row_threshold = 100, memory_threshold_mb = 1\<rparr>\<rparr>"
proof -
  have a: "\<not> CACAO_COMPONENTS_AVAILABLE basic_env" by (simp add: basic_env_def)
  have b: "CACAO_COMPONENTS_AVAILABLE (basic_env\<lparr>CACAO_COMPONENTS_AVAILABLE := True\<rparr>)" by simp
  have c: "PandasTablePlugin (basic_env\<lparr>CACAO_COMPONENTS_AVAILABLE := True\<rparr>) (''simple'' = ''advanced'') 100 1 =
     Inr \<lparr>enhanced_mode = False, row_threshold = 100, memory_threshold_mb = 1\<rparr>"
    by (simp add: basic_env_def)
  from page_needs_a_frame [of basic_env "PyStr ''not a frame''" None "''advanced''" 0
      "\<lparr>enhanced_mode = True, row_threshold = 100, memory_threshold_mb = 1\<rparr>"]
    page_needs_a_frame [of "basic_env\<lparr>CACAO_COMPONENTS_AVAILABLE := True\<rparr>" "PyNone"
      "Some ''Sales''" "''simple''" 0
      "\<lparr>enhanced_mode = False, row_threshold = 100, memory_threshold_mb = 1\<rparr>"]
    a b c
  show ?thesis by blast
qed

text \<open>
  C2. A call of \<^verbatim>\<open>preview_dataframe\<close> made while the flag is set, that is between line
  389 of an earlier call and that call's \<^verbatim>\<open>finally\<close> clause, returns at once: it prints
  the warning and changes nothing else (no frame, no window, no flag). A call made while
  the flag is not set runs the body with the flag set and clears the flag when the body
  returns or raises; so after it the flag is not set, and the next call runs its body in
  the same way.
\<close>

theorem preview_guard:
  "(viewer_running w \<longrightarrow>
      preview_dataframe env df ttl width height md w =
        (Inr (), w\<lparr>stdout := stdout w @
           [''Warning: Cacao Pandas UI is already running. Ignoring duplicate call.'']\<rparr>)) \<and>
   (\<not> viewer_running w \<longrightarrow>
      preview_dataframe env df ttl width height md w =
        (fst (preview_body env df ttl width height md (w\<lparr>viewer_running := True\<rparr>)),
         (snd (preview_body env df ttl width height md (w\<lparr>viewer_running := True\<rparr>)))
           \<lparr>viewer_running := False\<rparr>) \<and>
      \<not> viewer_running (snd (preview_dataframe env df ttl width height md w)) \<and>
      preview_dataframe env df' ttl' width' height' md'
          (snd (preview_dataframe env df ttl width height md w)) =
        (fst (preview_body env df' ttl' width' height' md'
                ((snd (preview_dataframe env df ttl width height md w))\<lparr>viewer_running := True\<rparr>)),
         (snd (preview_body env df' ttl' width' height' md'
                ((snd (preview_dataframe env df ttl width height md w))\<lparr>viewer_running := True\<rparr>)))
           \<lparr>viewer_running := False\<rparr>))"
proof -
  have first: "preview_dataframe env df ttl width height md w =
        (fst (preview_body env df ttl width height md (w\<lparr>viewer_running := True\<rparr>)),
         (snd (preview_body env df ttl width height md (w\<lparr>viewer_running := True\<rparr>)))
           \<lparr>viewer_running := False\<rparr>)"
    if "\<not> viewer_running w" for w df ttl width height md
    using that by (simp add: preview_dataframe_def split: prod.split)
  have cleared: "\<not> viewer_running (snd (preview_dataframe env df ttl width height md w))"
    if "\<not> viewer_running w"
    using first [OF that] by simp
  have dup: "preview_dataframe env df ttl width height md w =
        (Inr (), w\<lparr>stdout := stdout w @
           [''Warning: Cacao Pandas UI is already running. Ignoring duplicate call.'']\<rparr>)"
    if "viewer_running w"
    using that by (simp add: preview_dataframe_def print_out_def)
  from dup first [of w df ttl width height md] cleared
    first [of "snd (preview_dataframe env df ttl width height md w)" df' ttl' width' height' md']
  show ?thesis by blast
qed

theorem preview_guard_witness:
  "viewer_running (blank\<lparr>viewer_running := True\<rparr>) \<and>
   preview_dataframe basic_env (DataFrame 0) None 1000 700 ''advanced'' (blank\<lparr>viewer_running := True\<rparr>) =
     (Inr (), blank\<lparr>viewer_running := True,
        stdout := [''Warning: Cacao Pandas UI is already running. Ignoring duplicate call.'']\<rparr>) \<and>
   \<not> viewer_running blank \<and>
   preview_dataframe reload_env (DataFrame 0) (Some ''Sales'') 1000 700 ''advanced'' blank =
     (Inr (), blank\<lparr>stdout := [''Warning: Cacao Pandas UI is already running. Ignoring duplicate call.''],
        windows := [\<lparr>brew_type = ''desktop'', brew_title = ''Sales'', brew_width = 1000,
                     brew_height = 700, resizable = True, fullscreen = False\<rparr>]\<rparr>) \<and>
   preview_dataframe basic_env (NotDataFrame PyNone) None 1000 700 ''advanced'' blank =
     (Inl (ValueError ''Input must be a pandas DataFrame''), blank) \<and>
   preview_dataframe basic_env (DataFrame 0) None 800 600 ''simple''
       (snd (preview_dataframe basic_env (NotDataFrame PyNone) None 1000 700 ''advanced'' blank)) =
     (Inr (), blank\<lparr>windows := [\<lparr>brew_type = ''desktop'', brew_title = ''Pandas DataFrame Viewer'',
                     brew_width = 800, brew_height = 600, resizable = True, fullscreen = False\<rparr>]\<rparr>)"
proof -
  have a: "viewer_running (blank\<lparr>viewer_running := True\<rparr>)" by simp
  have b: "\<not> viewer_running blank" by (simp add: blank_def)
  note g1 = preview_guard [of "blank\<lparr>viewer_running := True\<rparr>" basic_env "DataFrame 0" None 1000 700
      "''advanced''" "DataFrame 0" None 1000 700 "''advanced''"]
  note g2 = preview_guard [of blank reload_env "DataFrame 0" "Some ''Sales''" 1000 700
      "''advanced''" "DataFrame 0" None 1000 700 "''advanced''"]
  note g3 = preview_guard [of blank basic_env "NotDataFrame PyNone" None 1000 700
      "''advanced''" "DataFrame 0" None 800 600 "''simple''"]
  from g1 a have c1: "preview_dataframe basic_env (DataFrame 0) None 1000 700 ''advanced''
       (blank\<lparr>viewer_running := True\<rparr>) =
     (Inr (), blank\<lparr>viewer_running := True,
        stdout := [''Warning: Cacao Pandas UI is already running. Ignoring duplicate call.'']\<rparr>)"
    by (simp add: blank_def)
  from g2 b have c2: "preview_dataframe reload_env (DataFrame 0) (Some ''Sales'') 1000 700 ''advanced'' blank =
     (Inr (), blank\<lparr>stdout := [''Warning: Cacao Pandas UI is already running. Ignoring duplicate call.''],
        windows := [\<lparr>brew_type = ''desktop'', brew_title = ''Sales'', brew_width = 1000,
                     brew_height = 700, resizable = True, fullscreen = False\<rparr>]\<rparr>)"
    by (simp add: blank_def preview_body_def reload_env_def basic_env_def PandasTablePage_init_def
        preview_dataframe_def print_out_def)
  have B3: "preview_body basic_env (NotDataFrame PyNone) None 1000 700 ''advanced''
       (blank\<lparr>viewer_running := True\<rparr>) =
     (Inl (ValueError ''Input must be a pandas DataFrame''), blank\<lparr>viewer_running := True\<rparr>)"
    by (simp add: preview_body_def basic_env_def PandasTablePage_init_def)
  from g3 b have e3: "preview_dataframe basic_env (NotDataFrame PyNone) None 1000 700 ''advanced'' blank =
        (fst (preview_body basic_env (NotDataFrame PyNone) None 1000 700 ''advanced''
                (blank\<lparr>viewer_running := True\<rparr>)),
         (snd (preview_body basic_env (NotDataFrame PyNone) None 1000 700 ''advanced''
                (blank\<lparr>viewer_running := True\<rparr>)))\<lparr>viewer_running := False\<rparr>)"
    by blast
  then have c3: "preview_dataframe basic_env (NotDataFrame PyNone) None 1000 700 ''advanced'' blank =
     (Inl (ValueError ''Input must be a pandas DataFrame''), blank)"
    unfolding B3 by (simp add: blank_def)
  have B4: "preview_body basic_env (DataFrame 0) None 800 600 ''simple'' (blank\<lparr>viewer_running := True\<rparr>) =
     (Inr (), blank\<lparr>viewer_running := True,
        windows := [\<lparr>brew_type = ''desktop'', brew_title = ''Pandas DataFrame Viewer'',
                     brew_width = 800, brew_height = 600, resizable = True, fullscreen = False\<rparr>]\<rparr>)"
    by (simp add: preview_body_def basic_env_def PandasTablePage_init_def blank_def)
  from g3 b have "preview_dataframe basic_env (DataFrame 0) None 800 600 ''simple''
          (snd (preview_dataframe basic_env (NotDataFrame PyNone) None 1000 700 ''advanced'' blank)) =
        (fst (preview_body basic_env (DataFrame 0) None 800 600 ''simple''
                ((snd (preview_dataframe basic_env (NotDataFrame PyNone) None 1000 700 ''advanced'' blank))
                   \<lparr>viewer_running := True\<rparr>)),
         (snd (preview_body basic_env (DataFrame 0) None 800 600 ''simple''
                ((snd (preview_dataframe basic_env (NotDataFrame PyNone) None 1000 700 ''advanced'' blank))
                   \<lparr>viewer_running := True\<rparr>)))\<lparr>viewer_running := False\<rparr>)"
    by blast
  then have c4: "preview_dataframe basic_env (DataFrame 0) None 800 600 ''simple''
       (snd (preview_dataframe basic_env (NotDataFrame PyNone) None 1000 700 ''advanced'' blank)) =
     (Inr (), blank\<lparr>windows := [\<lparr>brew_type = ''desktop'', brew_title = ''Pandas DataFrame Viewer'',
                     brew_width = 800, brew_height = 600, resizable = True, fullscreen = False\<rparr>]\<rparr>)"
    unfolding c3 snd_conv B4 by (simp add: blank_def)
  from a b c1 c2 c3 c4 show ?thesis by (intro conjI)
qed

section \<open>The stored frame is left alone\<close>

lemma prepare_table_data_store:
  "snd (prepare_table_data self h) =
     (if fill_accepted (h ! dataframe self) (PyStr ''N/A'')
      then h @ [h ! dataframe self, fill_frame (h ! dataframe self) (PyStr ''N/A'')]
      else h @ [h ! dataframe self])"
  by (simp add: prepare_table_data_def df_copy_def df_fillna_def fillna_def nth_append Let_def
      split: sum.split)

lemma keeps_frames_refl: "keeps_frames w w"
  by (simp add: keeps_frames_def)

lemma keeps_frames_length: "keeps_frames w w' \<Longrightarrow> length (frames w) \<le> length (frames w')"
proof -
  assume "keeps_frames w w'"
  then have "length (take (length (frames w)) (frames w')) = length (frames w)"
    by (simp add: keeps_frames_def)
  then show ?thesis by (simp add: min_def split: if_splits)
qed

lemma keeps_frames_trans: "keeps_frames w w' \<Longrightarrow> keeps_frames w' w'' \<Longrightarrow> keeps_frames w w''"
proof -
  assume a: "keeps_frames w w'" and b: "keeps_frames w' w''"
  from a have le: "length (frames w) \<le> length (frames w')"
    by (rule keeps_frames_length)
  from a have "frames w = take (length (frames w)) (frames w')"
    by (simp add: keeps_frames_def)
  also from b have "\<dots> = take (length (frames w)) (take (length (frames w')) (frames w''))"
    by (simp add: keeps_frames_def)
  also from le have "\<dots> = take (length (frames w)) (frames w'')"
    by (simp add: min_def)
  finally show ?thesis by (simp add: keeps_frames_def)
qed

lemma keeps_frames_nth:
  assumes "keeps_frames w w'" "r < length (frames w)"
  shows "r < length (frames w') \<and> frames w' ! r = frames w ! r"
proof -
  from assms(1) have eq: "take (length (frames w)) (frames w') = frames w"
    by (simp add: keeps_frames_def)
  from assms(1) have "length (frames w) \<le> length (frames w')"
    by (rule keeps_frames_length)
  moreover from assms(2) have "take (length (frames w)) (frames w') ! r = frames w' ! r" by simp
  ultimately show ?thesis using assms(2) eq by simp
qed

lemma keeps_frames_prepare:
  "keeps_frames w (w\<lparr>frames := snd (prepare_table_data self (frames w))\<rparr>)"
  by (simp add: keeps_frames_def prepare_table_data_store)

lemma render_fallback_store:
  "\<not> CACAO_COMPONENTS_AVAILABLE env \<Longrightarrow>
   snd (render env self w) = w\<lparr>frames := snd (prepare_table_data self (frames w))\<rparr>"
  by (simp add: render_def split: prod.split sum.split)

lemma keeps_frames_render:
  assumes "CACAO_COMPONENTS_AVAILABLE env \<longrightarrow>
      (\<forall>p r w. keeps_frames w (snd (plugin_process env p r w))) \<and>
      (\<forall>t w. keeps_frames w (snd (table_component_render env t w)))"
  shows "keeps_frames w (snd (render env self w))"
proof (cases "CACAO_COMPONENTS_AVAILABLE env")
  case False
  then show ?thesis by (simp add: render_fallback_store keeps_frames_prepare)
next
  case True
  with assms have pp: "\<And>p r w. keeps_frames w (snd (plugin_process env p r w))"
    and tr: "\<And>t w. keeps_frames w (snd (table_component_render env t w))"
    by blast+
  show ?thesis
  proof (cases "plugin self")
    case None
    with True show ?thesis by (simp add: render_def keeps_frames_refl)
  next
    case (Some p)
    obtain r1 w1 where p1: "plugin_process env p (dataframe self) w = (r1, w1)"
      by (cases "plugin_process env p (dataframe self) w")
    with pp [of w p "dataframe self"] have k1: "keeps_frames w w1" by simp
    show ?thesis
    proof (cases r1)
      case (Inl e)
      with True Some p1 k1 show ?thesis by (simp add: render_def)
    next
      case (Inr tc)
      obtain r2 w2 where p2: "table_component_render env tc w1 = (r2, w2)"
        by (cases "table_component_render env tc w1")
      with tr [of w1 tc] have "keeps_frames w1 w2" by simp
      with k1 have "keeps_frames w w2" by (rule keeps_frames_trans)
      with True Some p1 Inr p2 show ?thesis
        by (cases r2) (simp_all add: render_def)
    qed
  qed
qed

lemma keeps_frames_run_calls:
  assumes "CACAO_COMPONENTS_AVAILABLE env \<longrightarrow>
      (\<forall>p r w. keeps_frames w (snd (plugin_process env p r w))) \<and>
      (\<forall>t w. keeps_frames w (snd (table_component_render env t w)))"
  shows "keeps_frames w (run_calls env self cs w)"
proof (induction cs arbitrary: w)
  case Nil
  show ?case by (simp add: run_calls_def keeps_frames_refl)
next
  case (Cons c cs)
  have step: "keeps_frames w (run_call env self c w)"
    by (cases c) (simp_all add: keeps_frames_render [OF assms] keeps_frames_prepare)
  have "run_calls env self (c # cs) w = run_calls env self cs (run_call env self c w)"
    by (simp add: run_calls_def)
  with step Cons.IH [of "run_call env self c w"] show ?case
    by (auto intro: keeps_frames_trans)
qed

text \<open>
  C10. No sequence of calls of \<^verbatim>\<open>render\<close> and \<^verbatim>\<open>_prepare_table_data\<close> on a page
  changes the frame the page holds, nor any other frame that exists before the calls:
  after the calls each is under the same reference with the same labels, dtypes and cells,
  the missing values included. \<^verbatim>\<open>_prepare_table_data\<close> only allocates frames: the copy
  and, where \<^verbatim>\<open>fillna\<close> returns, the filled copy. Where \<^verbatim>\<open>render\<close> hands the frame to
  the framework's plugin, this holds when the plugin and its table component keep the
  frames as they are.
\<close>

theorem source_frame_unchanged:
  assumes "CACAO_COMPONENTS_AVAILABLE env \<longrightarrow>
      (\<forall>p r w. keeps_frames w (snd (plugin_process env p r w))) \<and>
      (\<forall>t w. keeps_frames w (snd (table_component_render env t w)))"
    and "dataframe self < length (frames w)"
  shows "dataframe self < length (frames (run_calls env self cs w)) \<and>
     frames (run_calls env self cs w) ! dataframe self = frames w ! dataframe self \<and>
     take (length (frames w)) (frames (run_calls env self cs w)) = frames w \<and>
     snd (prepare_table_data self (frames w)) =
       (if fill_accepted (frames w ! dataframe self) (PyStr ''N/A'')
        then frames w @ [frames w ! dataframe self,
                         fill_frame (frames w ! dataframe self) (PyStr ''N/A'')]
        else frames w @ [frames w ! dataframe self])"
proof -
  have k: "keeps_frames w (run_calls env self cs w)"
    by (rule keeps_frames_run_calls [OF assms(1)])
  from keeps_frames_nth [OF k assms(2)] k prepare_table_data_store [of self "frames w"]
  show ?thesis by (simp add: keeps_frames_def)
qed

theorem source_frame_unchanged_witness:
  "\<not> CACAO_COMPONENTS_AVAILABLE basic_env \<and>
   dataframe (viewer_of 0) < length (frames (blank\<lparr>frames := [people]\<rparr>)) \<and>
   dataframe (viewer_of 0) <
     length (frames (run_calls basic_env (viewer_of 0) [Render, Prepare, Render] (blank\<lparr>frames := [people]\<rparr>))) \<and>
   frames (run_calls basic_env (viewer_of 0) [Render, Prepare, Render] (blank\<lparr>frames := [people]\<rparr>))
     ! dataframe (viewer_of 0) = people \<and>
   length (frames (run_calls basic_env (viewer_of 0) [Render, Prepare, Render] (blank\<lparr>frames := [people]\<rparr>)))
     = 7 \<and>
   df_cells (snd (prepare_table_data (viewer_of 0) [people]) ! 2) =
     [[PyStr ''Alice'', PyInt 25, PyDatetime new_year, PyStr ''N/A'', PyBool True],
      [PyStr ''Bob'', PyInt 30, PyStr ''N/A'', PyFloat ''4.5'', PyBool False]]"
proof -
  have a: "\<not> CACAO_COMPONENTS_AVAILABLE basic_env" by (simp add: basic_env_def)
  then have a': "CACAO_COMPONENTS_AVAILABLE basic_env \<longrightarrow>
      (\<forall>p r w. keeps_frames w (snd (plugin_process basic_env p r w))) \<and>
      (\<forall>t w. keeps_frames w (snd (table_component_render basic_env t w)))"
    by simp
  have b: "dataframe (viewer_of 0) < length (frames (blank\<lparr>frames := [people]\<rparr>))"
    by (simp add: viewer_of_def)
  note t = source_frame_unchanged [OF a' b, of "[Render, Prepare, Render]"]
  from t have c: "dataframe (viewer_of 0) <
     length (frames (run_calls basic_env (viewer_of 0) [Render, Prepare, Render] (blank\<lparr>frames := [people]\<rparr>)))"
    by blast
  from t have d: "frames (run_calls basic_env (viewer_of 0) [Render, Prepare, Render] (blank\<lparr>frames := [people]\<rparr>))
     ! dataframe (viewer_of 0) = people"
    by (simp add: viewer_of_def)
  have e: "length (frames (run_calls basic_env (viewer_of 0) [Render, Prepare, Render] (blank\<lparr>frames := [people]\<rparr>)))
     = 7"
    using a by (simp add: run_calls_def render_fallback_store prepare_table_data_store
        viewer_of_def sample_people)
  from t have "snd (prepare_table_data (viewer_of 0) [people]) =
       [people, people, fill_frame people (PyStr ''N/A'')]"
    by (simp add: viewer_of_def sample_people)
  then have f: "df_cells (snd (prepare_table_data (viewer_of 0) [people]) ! 2) =
     [[PyStr ''Alice'', PyInt 25, PyDatetime new_year, PyStr ''N/A'', PyBool True],
      [PyStr ''Bob'', PyInt 30, PyStr ''N/A'', PyFloat ''4.5'', PyBool False]]"
    by (simp add: fill_frame_def people_def fill_cell_def)
  from a b c d e f show ?thesis by (intro conjI)
qed

section \<open>A frame without rows\<close>








end
